theory Spec2Isabelle
  imports Main "HOL-Library.Multiset"
begin

section \<open>Strings\<close>

text \<open>
  A TypeScript string is a sequence of code units. The model uses Isabelle strings, so it
  ranges over the code units below 256 (ASCII and Latin-1); every pattern, table key and
  needle of the program is ASCII. The few output literals of the program that hold a
  character beyond U+00FF are written with that character's UTF-8 bytes.
\<close>

definition toLowerChar :: "char \<Rightarrow> char" where
  "toLowerChar c =
     (let n = (of_char c :: nat)
      in if (65 \<le> n \<and> n \<le> 90) \<or> (192 \<le> n \<and> n \<le> 222 \<and> n \<noteq> 215)
         then char_of (n + 32) else c)"

definition toLowerCase :: "string \<Rightarrow> string" where
  "toLowerCase s = map toLowerChar s"

fun startsWith :: "string \<Rightarrow> string \<Rightarrow> bool" where
  "startsWith s [] = True"
| "startsWith [] (p # ps) = False"
| "startsWith (c # cs) (p # ps) = (c = p \<and> startsWith cs ps)"

text \<open>\<open>String.prototype.includes\<close>: the needle occurs at some position.\<close>

fun str_includes :: "string \<Rightarrow> string \<Rightarrow> bool" where
  "str_includes [] needle = (needle = [])"
| "str_includes (c # cs) needle = (startsWith (c # cs) needle \<or> str_includes cs needle)"

text \<open>\<open>Array.prototype.join\<close>.\<close>

fun join :: "string list \<Rightarrow> string \<Rightarrow> string" where
  "join [] sep = []"
| "join [x] sep = x"
| "join (x # y # ys) sep = x @ sep @ join (y # ys) sep"

text \<open>\<open>[...new Set(xs)]\<close>: the first occurrence of every element, in order.\<close>

definition uniqueInOrder :: "'a list \<Rightarrow> 'a list" where
  "uniqueInOrder xs = foldl (\<lambda>acc x. if x \<in> set acc then acc else acc @ [x]) [] xs"

text \<open>Truthiness of a string value that may be \<open>undefined\<close>: defined and not empty.\<close>

fun truthy :: "string option \<Rightarrow> bool" where
  "truthy None = False"
| "truthy (Some s) = (s \<noteq> [])"

section \<open>Objects with string keys\<close>

text \<open>
  A \<open>Record<string, string>\<close> is an association list in insertion order with one entry
  per key. \<open>setProp\<close> is an assignment \<open>o[k] = v\<close>; \<open>spread\<close> is the object literal
  \<open>{...a, ...b}\<close>, where a later value replaces an earlier one under the same key.
\<close>

type_synonym obj = "(string \<times> string) list"

fun setProp :: "obj \<Rightarrow> string \<Rightarrow> string \<Rightarrow> obj" where
  "setProp [] k v = [(k, v)]"
| "setProp ((k', v') # ps) k v =
     (if k' = k then (k, v) # ps else (k', v') # setProp ps k v)"

definition spread :: "obj \<Rightarrow> obj \<Rightarrow> obj" where
  "spread a b = foldl (\<lambda>acc (k, v). setProp acc k v) [] (a @ b)"

definition keys :: "obj \<Rightarrow> string list" where
  "keys ob = map fst ob"

definition getProp :: "obj \<Rightarrow> string \<Rightarrow> string option" where
  "getProp ob k = map_of ob k"

section \<open>Data model (shared/types.ts, services/appUnderstanding.ts)\<close>

record PackageJson =
  dependencies :: "obj option"
  devDependencies :: "obj option"

record AppContent =
  files :: "(string \<times> string) list"
  packageJson :: "PackageJson option"
  requirements :: "string option"

record StackProfile =
  runtime :: "string option"
  framework :: "string option"
  database :: "string option"
  databases :: "string list option"
  external_apis :: "string list option"
  stack_has_background_jobs :: "bool option"
  stack_has_file_uploads :: "bool option"
  deployment_platform :: "string option"

datatype level = Low | Medium | High

record BehaviorProfile =
  is_stateful :: bool
  write_heavy :: bool
  has_background_jobs :: bool
  has_file_uploads :: bool
  estimated_concurrency_risk :: level
  external_dependency_count :: int

section \<open>detectStack\<close>

definition mergedDeps :: "PackageJson \<Rightarrow> obj" where
  "mergedDeps pj =
     spread (case dependencies pj of Some d \<Rightarrow> d | None \<Rightarrow> [])
            (case devDependencies pj of Some d \<Rightarrow> d | None \<Rightarrow> [])"

definition frameworks :: "(string \<times> string) list" where
  "frameworks =
     [(''express'', ''Express''), (''fastify'', ''Fastify''), (''next'', ''Next.js''),
      (''nuxt'', ''Nuxt''), (''koa'', ''Koa''), (''hapi'', ''@hapi/hapi''),
      (''@nestjs/core'', ''NestJS'')]"

definition dbMapping :: "(string \<times> string) list" where
  "dbMapping =
     [(''pg'', ''PostgreSQL''), (''mongoose'', ''MongoDB''), (''mongodb'', ''MongoDB''),
      (''sqlite3'', ''SQLite''), (''better-sqlite3'', ''SQLite''), (''mysql2'', ''MySQL''),
      (''mysql'', ''MySQL''), (''@prisma/client'', ''Prisma''), (''prisma'', ''Prisma'')]"

definition apiPatterns :: "(string \<times> string) list" where
  "apiPatterns =
     [(''stripe'', ''Stripe''), (''twilio'', ''Twilio''), (''@sendgrid/mail'', ''SendGrid''),
      (''sendgrid'', ''SendGrid''), (''aws-sdk'', ''AWS''), (''@aws-sdk'', ''AWS''),
      (''@google-cloud'', ''Google Cloud''), (''firebase'', ''Firebase''),
      (''firebase-admin'', ''Firebase'')]"

text \<open>The framework loop: the first table entry whose package is a truthy dependency; then \<open>break\<close>.\<close>

fun detectFramework :: "obj \<Rightarrow> (string \<times> string) list \<Rightarrow> StackProfile \<Rightarrow> StackProfile" where
  "detectFramework deps [] sp = sp"
| "detectFramework deps ((pkg, name) # rest) sp =
     (if truthy (getProp deps pkg) then sp\<lparr>framework := Some name\<rparr>
      else detectFramework deps rest sp)"

text \<open>
  The database loop: \<open>databases?.includes(db)\<close> is \<open>undefined\<close> on an absent list, and
  \<open>databases?.push(db)\<close> does nothing there.
\<close>

fun detectDatabases :: "obj \<Rightarrow> (string \<times> string) list \<Rightarrow> StackProfile \<Rightarrow> StackProfile" where
  "detectDatabases deps [] sp = sp"
| "detectDatabases deps ((pkg, db) # rest) sp =
     detectDatabases deps rest
       (if truthy (getProp deps pkg)
           \<and> \<not> (case databases sp of Some dbs \<Rightarrow> db \<in> set dbs | None \<Rightarrow> False)
        then sp\<lparr>databases := map_option (\<lambda>dbs. dbs @ [db]) (databases sp)\<rparr>
        else sp)"

text \<open>\<open>if (databases && databases.length > 0) database = databases[0]\<close>.\<close>

definition setPrimaryDatabase :: "StackProfile \<Rightarrow> StackProfile" where
  "setPrimaryDatabase sp =
     (case databases sp of
        Some (d # ds) \<Rightarrow> sp\<lparr>database := Some d\<rparr>
      | _ \<Rightarrow> sp)"

fun detectApis :: "obj \<Rightarrow> (string \<times> string) list \<Rightarrow> StackProfile \<Rightarrow> StackProfile" where
  "detectApis deps [] sp = sp"
| "detectApis deps ((pkg, api) # rest) sp =
     detectApis deps rest
       (if list_ex (\<lambda>dep. str_includes dep pkg) (keys deps)
        then sp\<lparr>external_apis := map_option (\<lambda>apis. apis @ [api]) (external_apis sp)\<rparr>
        else sp)"

definition hasFile :: "AppContent \<Rightarrow> string \<Rightarrow> bool" where
  "hasFile appContent name = (name \<in> set (map fst (files appContent)))"

definition detectPlatform :: "AppContent \<Rightarrow> StackProfile \<Rightarrow> StackProfile" where
  "detectPlatform appContent sp =
     (if hasFile appContent ''vercel.json'' then sp\<lparr>deployment_platform := Some ''Vercel''\<rparr>
      else if hasFile appContent ''replit.nix'' \<or> hasFile appContent ''.replit''
        then sp\<lparr>deployment_platform := Some ''Replit''\<rparr>
      else if hasFile appContent ''fly.toml'' then sp\<lparr>deployment_platform := Some ''Fly.io''\<rparr>
      else if hasFile appContent ''railway.json''
        then sp\<lparr>deployment_platform := Some ''Railway''\<rparr>
      else sp)"

definition nodeDetection :: "AppContent \<Rightarrow> PackageJson \<Rightarrow> StackProfile \<Rightarrow> StackProfile" where
  "nodeDetection appContent pj sp0 =
     (let deps = mergedDeps pj;
          sp1 = sp0\<lparr>runtime := Some ''Node.js''\<rparr>;
          sp2 = detectFramework deps frameworks sp1;
          sp3 = detectDatabases deps dbMapping sp2;
          sp4 = setPrimaryDatabase sp3;
          sp5 = detectApis deps apiPatterns sp4;
          sp6 = detectPlatform appContent sp5;
          sp7 = sp6\<lparr>stack_has_background_jobs :=
                  Some (truthy (getProp deps ''bull'') \<or> truthy (getProp deps ''agenda'')
                        \<or> truthy (getProp deps ''node-cron''))\<rparr>
      in sp7\<lparr>stack_has_file_uploads :=
                  Some (truthy (getProp deps ''multer'') \<or> truthy (getProp deps ''formidable'')
                        \<or> truthy (getProp deps ''busboy''))\<rparr>)"

definition pushDatabase :: "string \<Rightarrow> StackProfile \<Rightarrow> StackProfile" where
  "pushDatabase db sp = sp\<lparr>databases := map_option (\<lambda>dbs. dbs @ [db]) (databases sp)\<rparr>"

definition pythonDetection :: "string \<Rightarrow> StackProfile \<Rightarrow> StackProfile" where
  "pythonDetection req sp0 =
     (let reqLower = toLowerCase req;
          sp1 = sp0\<lparr>runtime := Some ''Python''\<rparr>;
          sp2 = (if str_includes reqLower ''django'' then sp1\<lparr>framework := Some ''Django''\<rparr>
                 else if str_includes reqLower ''flask'' then sp1\<lparr>framework := Some ''Flask''\<rparr>
                 else if str_includes reqLower ''fastapi'' then sp1\<lparr>framework := Some ''FastAPI''\<rparr>
                 else sp1);
          sp3 = (if str_includes reqLower ''psycopg'' then pushDatabase ''PostgreSQL'' sp2 else sp2);
          sp4 = (if str_includes reqLower ''pymongo'' then pushDatabase ''MongoDB'' sp3 else sp3);
          sp5 = (if str_includes reqLower ''mysql'' then pushDatabase ''MySQL'' sp4 else sp4)
      in setPrimaryDatabase sp5)"

definition emptyStackProfile :: StackProfile where
  "emptyStackProfile =
     \<lparr>runtime = None, framework = None, database = None, databases = Some [],
      external_apis = Some [], stack_has_background_jobs = None,
      stack_has_file_uploads = None, deployment_platform = None\<rparr>"

definition detectStack :: "AppContent \<Rightarrow> StackProfile" where
  "detectStack appContent =
     (let sp0 = emptyStackProfile;
          sp1 = (case packageJson appContent of
                   Some pj \<Rightarrow> nodeDetection appContent pj sp0
                 | None \<Rightarrow> sp0);
          sp2 = (case requirements appContent of
                   Some req \<Rightarrow> (if req \<noteq> [] then pythonDetection req sp1 else sp1)
                 | None \<Rightarrow> sp1)
      in sp2\<lparr>external_apis :=
                Some (uniqueInOrder (case external_apis sp2 of Some apis \<Rightarrow> apis | None \<Rightarrow> []))\<rparr>)"

section \<open>Regular expressions\<close>

text \<open>
  The patterns of the program are sequences of a character, \<open>\s\<close> or \<open>\w\<close>, each taken
  once or under \<open>+\<close> or \<open>*\<close>. The matcher is the backtracking one of ECMAScript on this
  fragment: a quantifier takes as many characters as it can and gives them back one at
  a time. Under the flag \<open>i\<close> two characters match when their canonical (upper-case)
  forms are equal; a character beyond ASCII never canonicalises to an ASCII one. The two
  letters below 256 whose upper-case form lies beyond U+00FF (U+00B5 and U+00FF) stay as
  they are: no other character below 256 has their canonical form.
\<close>

datatype atom = Lit char | WhiteSpace | WordChar

datatype quantifier = Once | Plus | Star

type_synonym pattern = "(atom \<times> quantifier) list"

record RegExp =
  source :: pattern
  ignoreCase :: bool

definition canonicalize :: "char \<Rightarrow> char" where
  "canonicalize c =
     (let n = (of_char c :: nat)
      in if (97 \<le> n \<and> n \<le> 122) \<or> (224 \<le> n \<and> n \<le> 254 \<and> n \<noteq> 247)
         then char_of (n - 32) else c)"

definition isWhiteSpace :: "char \<Rightarrow> bool" where
  "isWhiteSpace c = ((of_char c :: nat) \<in> {9, 10, 11, 12, 13, 32, 160})"

definition isWordChar :: "char \<Rightarrow> bool" where
  "isWordChar c =
     (let n = (of_char c :: nat)
      in (48 \<le> n \<and> n \<le> 57) \<or> (65 \<le> n \<and> n \<le> 90) \<or> n = 95 \<or> (97 \<le> n \<and> n \<le> 122))"

fun atomMatches :: "bool \<Rightarrow> atom \<Rightarrow> char \<Rightarrow> bool" where
  "atomMatches ic (Lit p) c = (if ic then canonicalize p = canonicalize c else p = c)"
| "atomMatches ic WhiteSpace c = isWhiteSpace c"
| "atomMatches ic WordChar c = isWordChar c"

text \<open>\<open>matchHere ic p s\<close>: the input left after the match of \<open>p\<close> at the start of \<open>s\<close>.\<close>

fun matchHere :: "bool \<Rightarrow> pattern \<Rightarrow> string \<Rightarrow> string option" where
  "matchHere ic [] s = Some s"
| "matchHere ic ((a, Once) # p) [] = None"
| "matchHere ic ((a, Once) # p) (c # cs) =
     (if atomMatches ic a c then matchHere ic p cs else None)"
| "matchHere ic ((a, Plus) # p) [] = None"
| "matchHere ic ((a, Plus) # p) (c # cs) =
     (if atomMatches ic a c then matchHere ic ((a, Star) # p) cs else None)"
| "matchHere ic ((a, Star) # p) [] = matchHere ic p []"
| "matchHere ic ((a, Star) # p) (c # cs) =
     (if atomMatches ic a c
      then (case matchHere ic ((a, Star) # p) cs of
              Some rest \<Rightarrow> Some rest
            | None \<Rightarrow> matchHere ic p (c # cs))
      else matchHere ic p (c # cs))"

text \<open>\<open>RegExp.prototype.test\<close> without the flag \<open>g\<close>: a match at some position.\<close>

fun testFrom :: "bool \<Rightarrow> pattern \<Rightarrow> string \<Rightarrow> bool" where
  "testFrom ic p [] = (matchHere ic p [] \<noteq> None)"
| "testFrom ic p (c # cs) = (matchHere ic p (c # cs) \<noteq> None \<or> testFrom ic p cs)"

definition test :: "RegExp \<Rightarrow> string \<Rightarrow> bool" where
  "test re s = testFrom (ignoreCase re) (source re) s"

text \<open>
  \<open>s.match(re)\<close> with the flag \<open>g\<close> collects the matches from left to right, each search
  starting where the last match ended (one character further after an empty match);
  \<open>matchCount\<close> is the length of that array, 0 when the result is \<open>null\<close>.
\<close>

function matchCountFrom :: "bool \<Rightarrow> pattern \<Rightarrow> string \<Rightarrow> nat" where
  "matchCountFrom ic p [] = (if matchHere ic p [] = None then 0 else 1)"
| "matchCountFrom ic p (c # cs) =
     (case matchHere ic p (c # cs) of
        None \<Rightarrow> matchCountFrom ic p cs
      | Some rest \<Rightarrow>
          (if length rest < length (c # cs) then 1 + matchCountFrom ic p rest
           else 1 + matchCountFrom ic p cs))"
  by pat_completeness auto
termination
  by (relation "measure (\<lambda>(ic, p, s). length s)") auto

definition matchCount :: "RegExp \<Rightarrow> string \<Rightarrow> nat" where
  "matchCount re s = matchCountFrom (ignoreCase re) (source re) s"

text \<open>Pattern builders: a literal text, \<open>\s+\<close>, \<open>\s*\<close>, \<open>\w+\<close>.\<close>

definition lit :: "string \<Rightarrow> pattern" where
  "lit s = map (\<lambda>c. (Lit c, Once)) s"

definition spaces1 :: pattern where
  "spaces1 = [(WhiteSpace, Plus)]"

definition spaces0 :: pattern where
  "spaces0 = [(WhiteSpace, Star)]"

definition word1 :: pattern where
  "word1 = [(WordChar, Plus)]"

definition rx :: "pattern \<Rightarrow> RegExp" where
  "rx p = \<lparr>source = p, ignoreCase = False\<rparr>"

definition rxi :: "pattern \<Rightarrow> RegExp" where
  "rxi p = \<lparr>source = p, ignoreCase = True\<rparr>"

section \<open>analyzePatterns\<close>

definition statePatterns :: "RegExp list" where
  "statePatterns =
     [rxi (lit ''global'' @ spaces1 @ word1 @ spaces0 @ lit ''=''),
      rxi (lit ''session[''),
      rxi (lit ''sessionStorage''),
      rxi (lit ''localStorage''),
      rxi (lit ''.cache''),
      rxi (lit ''memoryStore''),
      rx (lit ''new'' @ spaces1 @ lit ''Map(''),
      rx (lit ''new'' @ spaces1 @ lit ''Set('')]"

definition writePatterns :: "RegExp list" where
  "writePatterns =
     [rxi (lit ''INSERT'' @ spaces1 @ lit ''INTO''),
      rxi (lit ''UPDATE'' @ spaces1 @ word1 @ spaces1 @ lit ''SET''),
      rxi (lit ''DELETE'' @ spaces1 @ lit ''FROM''),
      rxi (lit ''.save(''),
      rxi (lit ''.create(''),
      rxi (lit ''.update(''),
      rxi (lit ''.delete(''),
      rxi (lit ''.write(''),
      rxi (lit ''.writeFile'')]"

definition readPatterns :: "RegExp list" where
  "readPatterns =
     [rxi (lit ''SELECT'' @ spaces1),
      rxi (lit ''.find(''),
      rxi (lit ''.findOne(''),
      rxi (lit ''.get(''),
      rxi (lit ''.read(''),
      rxi (lit ''.readFile'')]"

definition bgJobPatterns :: "RegExp list" where
  "bgJobPatterns =
     [rxi (lit ''setTimeout''),
      rxi (lit ''setInterval''),
      rxi (lit ''bull''),
      rxi (lit ''agenda''),
      rxi (lit ''node-cron''),
      rxi (lit ''cron''),
      rxi (lit ''celery''),
      rxi (lit ''.delay(''),
      rxi (lit ''.apply_async'')]"

definition uploadPatterns :: "RegExp list" where
  "uploadPatterns =
     [rxi (lit ''multer''),
      rxi (lit ''formidable''),
      rxi (lit ''busboy''),
      rxi (lit ''werkzeug''),
      rxi (lit ''upload(''),
      rxi (lit ''multipart/form-data'')]"

definition codeContentOf :: "AppContent \<Rightarrow> string" where
  "codeContentOf appContent = join (map snd (files appContent)) [CHR 0x0A]"

definition countAll :: "RegExp list \<Rightarrow> string \<Rightarrow> int" where
  "countAll patterns s = foldl (\<lambda>n re. n + int (matchCount re s)) 0 patterns"

definition hasPooling :: "string \<Rightarrow> bool" where
  "hasPooling codeContent = test (rxi (lit ''pool'')) codeContent"

text \<open>\<open>stackProfile.database?.toLowerCase().includes("sqlite")\<close>, falsy on an absent database.\<close>

definition isSQLite :: "StackProfile \<Rightarrow> bool" where
  "isSQLite sp =
     (case database sp of
        Some d \<Rightarrow> str_includes (toLowerCase d) ''sqlite''
      | None \<Rightarrow> False)"

definition analyzePatterns :: "AppContent \<Rightarrow> BehaviorProfile" where
  "analyzePatterns appContent =
     (let codeContent = codeContentOf appContent;
          bp0 = \<lparr>is_stateful = False, write_heavy = False, has_background_jobs = False,
                 has_file_uploads = False, estimated_concurrency_risk = Low,
                 external_dependency_count = 0\<rparr>;
          bp1 = bp0\<lparr>is_stateful := list_ex (\<lambda>re. test re codeContent) statePatterns\<rparr>;
          writeCount = countAll writePatterns codeContent;
          readCount = countAll readPatterns codeContent;
          bp2 = bp1\<lparr>write_heavy := (writeCount > readCount)\<rparr>;
          bp3 = bp2\<lparr>has_background_jobs := list_ex (\<lambda>re. test re codeContent) bgJobPatterns\<rparr>;
          bp4 = bp3\<lparr>has_file_uploads := list_ex (\<lambda>re. test re codeContent) uploadPatterns\<rparr>;
          bp5 = (case packageJson appContent of
                   Some pj \<Rightarrow>
                     bp4\<lparr>external_dependency_count := int (length (keys (mergedDeps pj)))\<rparr>
                 | None \<Rightarrow> bp4);
          stackProfile = detectStack appContent
      in if (isSQLite stackProfile \<and> write_heavy bp5)
            \<or> (is_stateful bp5 \<and> \<not> hasPooling codeContent)
         then bp5\<lparr>estimated_concurrency_risk := High\<rparr>
         else if has_background_jobs bp5 \<or> external_dependency_count bp5 > 10
         then bp5\<lparr>estimated_concurrency_risk := Medium\<rparr>
         else bp5\<lparr>estimated_concurrency_risk := Low\<rparr>)"

section \<open>Numbers as text\<close>

text \<open>
  A count of the program is a \<open>number\<close> whose value is an integer: the model takes the
  integers that are binary64 values. Comparison is exact on them; a sum is rounded to the
  nearest binary64 value, ties to the even significand (53 bits), so it is exact below
  \<open>2^53\<close> and not above. \<open>numberToString\<close> is the decimal text, which is what the
  program prints for an integer below \<open>10^21\<close>.
\<close>

function bitLength :: "int \<Rightarrow> nat" where
  "bitLength n = (if n \<le> 0 then 0 else Suc (bitLength (n div 2)))"
  by pat_completeness auto
termination
  by (relation "measure nat") auto

definition roundToDouble :: "int \<Rightarrow> int" where
  "roundToDouble n =
     (let m = \<bar>n\<bar>; k = bitLength m
      in if k \<le> 53 then n
         else (let e = k - 53;
                   q = m div 2 ^ e;
                   r = m mod 2 ^ e;
                   half = 2 ^ (e - 1);
                   q' = (if r > half \<or> (r = half \<and> odd q) then q + 1 else q)
               in sgn n * (q' * 2 ^ e)))"

text \<open>The operator \<open>+\<close> on two counts.\<close>

definition jsAdd :: "int \<Rightarrow> int \<Rightarrow> int" where
  "jsAdd a b = roundToDouble (a + b)"

fun digitsOf :: "nat \<Rightarrow> string" where
  "digitsOf n =
     (if n < 10 then [char_of (48 + n)] else digitsOf (n div 10) @ [char_of (48 + n mod 10)])"

definition numberToString :: "int \<Rightarrow> string" where
  "numberToString n = (if n < 0 then CHR ''-'' # digitsOf (nat (- n)) else digitsOf (nat n))"

section \<open>Judgment engine: data\<close>

record RiskScenario =
  risk_id :: string
  title :: string
  plain_explanation :: string
  trigger_condition :: string
  user_symptom :: string
  severity :: level
  display_order :: int

record PlatformRecommendation =
  platform_id :: string
  platform_name :: string
  recommended_badge :: string
  why_bullets :: "string list"
  when_it_changes :: string
  confidence_note :: string

datatype step_mode = DoNothing | WatchOneThing | SmallUpgrade

record NextBestStepRecommendation =
  mode :: step_mode
  headline :: string
  explanation :: string
  cta_text :: string
  upgrade_required :: bool

datatype verdict_status = Safe | Watch | Fix

datatype stage = Mvp | WatchStage | Growth | Production

record LaunchVerdict =
  analysis_id :: string
  status :: verdict_status
  confidence_score :: int
  one_line_summary :: string
  risks :: "RiskScenario list"
  platform_recommendation :: PlatformRecommendation
  next_best_step :: NextBestStepRecommendation

text \<open>Of an \<open>AppAnalysis\<close> the engine reads the identifier and the two profiles.\<close>

record AppAnalysis =
  analysis_ident :: string
  stack_detection :: StackProfile
  behavior_profile :: BehaviorProfile

record Confidence =
  score :: int
  factors :: "string list"

section \<open>calculateLaunchConfidence\<close>

text \<open>
  \<open>stackProfile.database || (stackProfile.databases && stackProfile.databases[0])\<close>:
  the primary database when it is a non-empty string, else the head of the list.
\<close>

definition databaseOf :: "StackProfile \<Rightarrow> string option" where
  "databaseOf sp =
     (if truthy (database sp) then database sp
      else (case databases sp of
              None \<Rightarrow> None
            | Some [] \<Rightarrow> None
            | Some (d # ds) \<Rightarrow> Some d))"

text \<open>One scoring step: \<open>score += points; factors.push(factor)\<close>.\<close>

definition add :: "int \<Rightarrow> string \<Rightarrow> Confidence \<Rightarrow> Confidence" where
  "add points factor c = \<lparr>score = score c + points, factors = factors c @ [factor]\<rparr>"

definition databaseFactor :: "StackProfile \<Rightarrow> Confidence \<Rightarrow> Confidence" where
  "databaseFactor sp c =
     (case databaseOf sp of
        None \<Rightarrow> c
      | Some db \<Rightarrow>
          (if db = [] then c
           else (let d = toLowerCase db
                 in if str_includes d ''postgresql'' \<or> str_includes d ''postgres''
                       \<or> str_includes d ''managed''
                    then add 0 ''Uses managed database (lower risk)'' c
                    else if str_includes d ''sqlite'' \<or> str_includes d ''file''
                    then add 0 ''Uses SQLite (consider upgrade for production)'' c
                    else c)))"

definition calculateLaunchConfidence :: "StackProfile \<Rightarrow> BehaviorProfile \<Rightarrow> Confidence" where
  "calculateLaunchConfidence stackProfile behaviorProfile =
     (let c0 = \<lparr>score = 0, factors = []\<rparr>;
          c1 = (if \<not> is_stateful behaviorProfile then add 30 ''App is stateless (safer)'' c0
                else add 10 ''App is stateful (needs careful scaling)'' c0);
          c2 = (if \<not> write_heavy behaviorProfile then add 30 ''Clean read-heavy data access'' c1
                else add 10 ''Write-heavy workload (watch for bottlenecks)'' c1);
          c3 = databaseFactor stackProfile c2;
          depCount = external_dependency_count behaviorProfile;
          c4 = (if depCount < 3
                then add 20 (''Has '' @ numberToString depCount
                             @ '' external dependencies (minimal risk)'') c3
                else if depCount \<le> 5
                then add 10 (''Has '' @ numberToString depCount
                             @ '' external API dependencies'') c3
                else add 5 (''Has '' @ numberToString depCount
                            @ '' external dependencies (monitor reliability)'') c3);
          c5 = (case estimated_concurrency_risk behaviorProfile of
                  Low \<Rightarrow> add 20 ''Low concurrency risk'' c4
                | Medium \<Rightarrow> add 10 ''Medium concurrency risk'' c4
                | High \<Rightarrow> add 5 ''High concurrency risk (plan for scaling)'' c4)
      in if \<not> has_background_jobs behaviorProfile
         then add 0 ''No background jobs detected'' c5
         else add 0 ''Has background jobs (ensure separation from main app)'' c5)"

section \<open>detectRisks\<close>

definition dbContentionFires :: "StackProfile \<Rightarrow> BehaviorProfile \<Rightarrow> bool" where
  "dbContentionFires sp bp =
     (write_heavy bp
      \<and> (case databaseOf sp of
           None \<Rightarrow> False
         | Some db \<Rightarrow>
             db \<noteq> []
             \<and> (let d = toLowerCase db
                in str_includes d ''sqlite''
                   \<or> (\<not> str_includes d ''postgresql'' \<and> \<not> str_includes d ''postgres''
                      \<and> \<not> str_includes d ''managed''))))"

definition dbContentionRisk :: "BehaviorProfile \<Rightarrow> RiskScenario" where
  "dbContentionRisk bp =
     \<lparr>risk_id = ''db-contention'',
      title = ''Database contention'',
      plain_explanation =
        ''Your database isn'' @ [CHR 0x27] @ ''t built for lots of writes at once. ''
        @ ''If 10 people hit it simultaneously, they'' @ [CHR 0x27] @ ''ll all wait in line.'',
      trigger_condition = ''write_heavy AND database is sqlite OR not managed'',
      user_symptom = ''Slower responses under heavy use'',
      severity = (if estimated_concurrency_risk bp = High then High else Medium),
      display_order = 1\<rparr>"

definition costExplosionFires :: "StackProfile \<Rightarrow> bool" where
  "costExplosionFires sp =
     (case map_option toLowerCase (deployment_platform sp) of
        None \<Rightarrow> False
      | Some platform \<Rightarrow>
          platform \<noteq> []
          \<and> (str_includes platform ''vercel'' \<or> str_includes platform ''netlify''
             \<or> str_includes platform ''lambda'' \<or> str_includes platform ''serverless''))"

definition costExplosionRisk :: RiskScenario where
  "costExplosionRisk =
     \<lparr>risk_id = ''cost-explosion'',
      title = ''Surprise cost increase'',
      plain_explanation =
        ''On serverless platforms, a sudden spike in traffic can lead to unexpected bills. ''
        @ ''Watch your usage metrics closely.'',
      trigger_condition = ''serverless platform detected'',
      user_symptom = ''Unexpected hosting bills'',
      severity = Medium,
      display_order = 2\<rparr>"

definition externalDepsFires :: "BehaviorProfile \<Rightarrow> bool" where
  "externalDepsFires bp = (external_dependency_count bp > 2)"

definition externalDepsRisk :: "BehaviorProfile \<Rightarrow> RiskScenario" where
  "externalDepsRisk bp =
     \<lparr>risk_id = ''external-deps'',
      title = ''External dependency risk'',
      plain_explanation =
        ''You'' @ [CHR 0x27] @ ''re relying on '' @ numberToString (external_dependency_count bp)
        @ '' external APIs. If any go down or slow down, your app feels it.'',
      trigger_condition = ''external_dependency_count > 2'',
      user_symptom = ''Intermittent failures or slow responses'',
      severity = (if external_dependency_count bp > 5 then High else Medium),
      display_order = 3\<rparr>"

definition backgroundBlockingFires :: "BehaviorProfile \<Rightarrow> bool" where
  "backgroundBlockingFires bp =
     (has_background_jobs bp \<and> (write_heavy bp \<or> is_stateful bp))"

definition backgroundBlockingRisk :: RiskScenario where
  "backgroundBlockingRisk =
     \<lparr>risk_id = ''background-blocking'',
      title = ''Long-running tasks block users'',
      plain_explanation =
        ''Background jobs are running on the same server as user requests. ''
        @ ''Heavy processing can slow down the whole app.'',
      trigger_condition = ''has_background_jobs AND (stateful OR write_heavy)'',
      user_symptom = ''App feels sluggish during processing'',
      severity = Medium,
      display_order = 4\<rparr>"

definition concurrencyFires :: "BehaviorProfile \<Rightarrow> bool" where
  "concurrencyFires bp = (is_stateful bp \<or> estimated_concurrency_risk bp = High)"

definition concurrencyRisk :: "BehaviorProfile \<Rightarrow> RiskScenario" where
  "concurrencyRisk bp =
     \<lparr>risk_id = ''concurrency-risk'',
      title = ''Growth may expose concurrency issues'',
      plain_explanation =
        ''Your app maintains state or has high concurrency risk. ''
        @ ''When traffic increases, race conditions or data conflicts could appear.'',
      trigger_condition = ''is_stateful OR estimated_concurrency_risk high'',
      user_symptom = ''Data inconsistencies or crashes under load'',
      severity = (if is_stateful bp then High else Medium),
      display_order = 5\<rparr>"

text \<open>The array \<open>detectedRisks\<close> before it is sorted: one push per firing rule, in rule order.\<close>

definition candidateRisks :: "StackProfile \<Rightarrow> BehaviorProfile \<Rightarrow> RiskScenario list" where
  "candidateRisks sp bp =
     (if dbContentionFires sp bp then [dbContentionRisk bp] else [])
     @ (if costExplosionFires sp then [costExplosionRisk] else [])
     @ (if externalDepsFires bp then [externalDepsRisk bp] else [])
     @ (if backgroundBlockingFires bp then [backgroundBlockingRisk] else [])
     @ (if concurrencyFires bp then [concurrencyRisk bp] else [])"

text \<open>
  \<open>Array.prototype.sort\<close> with a comparator: a stable sort, here by insertion; a negative
  result of \<open>cmp a b\<close> puts \<open>a\<close> first.
\<close>

fun insertBy :: "('a \<Rightarrow> 'a \<Rightarrow> int) \<Rightarrow> 'a \<Rightarrow> 'a list \<Rightarrow> 'a list" where
  "insertBy cmp x [] = [x]"
| "insertBy cmp x (y # ys) = (if cmp x y < 0 then x # y # ys else y # insertBy cmp x ys)"

definition sortBy :: "('a \<Rightarrow> 'a \<Rightarrow> int) \<Rightarrow> 'a list \<Rightarrow> 'a list" where
  "sortBy cmp xs = foldl (\<lambda>acc x. insertBy cmp x acc) [] xs"

fun severityWeight :: "level \<Rightarrow> int" where
  "severityWeight High = 3"
| "severityWeight Medium = 2"
| "severityWeight Low = 1"

definition compareRisks :: "RiskScenario \<Rightarrow> RiskScenario \<Rightarrow> int" where
  "compareRisks a b =
     (let weightDiff = severityWeight (severity b) - severityWeight (severity a)
      in if weightDiff \<noteq> 0 then weightDiff else display_order a - display_order b)"

definition detectRisks :: "StackProfile \<Rightarrow> BehaviorProfile \<Rightarrow> RiskScenario list" where
  "detectRisks sp bp = take 3 (sortBy compareRisks (candidateRisks sp bp))"

section \<open>recommendPlatform\<close>

record PlatformScore =
  candidate_id :: string
  candidate_name :: string
  candidate_score :: int
  whyBullets :: "string list"
  whenItChanges :: string
  confidenceNote :: string

text \<open>\<open>!!(database || (databases && databases.length > 0))\<close>.\<close>

definition hasDatabase :: "StackProfile \<Rightarrow> bool" where
  "hasDatabase sp =
     (truthy (database sp) \<or> (case databases sp of Some dbs \<Rightarrow> dbs \<noteq> [] | None \<Rightarrow> False))"

text \<open>One scoring step: \<open>score += points; why.push(bullet)\<close>.\<close>

definition credit :: "int \<Rightarrow> string \<Rightarrow> int \<times> string list \<Rightarrow> int \<times> string list" where
  "credit points bullet acc = (fst acc + points, snd acc @ [bullet])"

definition replitCandidate :: "StackProfile \<Rightarrow> BehaviorProfile \<Rightarrow> PlatformScore" where
  "replitCandidate sp bp =
     (let rt = map_option toLowerCase (runtime sp);
          r0 = (50, []);
          r1 = (if \<not> is_stateful bp \<and> estimated_concurrency_risk bp = Low
                then credit 30 ''Simple setup for low-to-moderate traffic'' r0 else r0);
          r2 = (if rt = Some ''node'' \<or> rt = Some ''python''
                then credit 20 ''Great support for Node.js and Python'' r1 else r1)
      in \<lparr>candidate_id = ''replit'', candidate_name = ''Replit'', candidate_score = fst r2,
          whyBullets = take 2 (snd r2),
          whenItChanges =
            ''If usage grows 5'' @ [CHR 0xE2, CHR 0x80, CHR 0x93] @ ''10'' @ [CHR 0xC3, CHR 0x97]
            @ '', this setup may need an upgrade.'',
          confidenceNote = ''You'' @ [CHR 0x27] @ ''re not missing out by staying here.''\<rparr>)"

definition vercelCandidate :: "StackProfile \<Rightarrow> BehaviorProfile \<Rightarrow> PlatformScore" where
  "vercelCandidate sp bp =
     (let fw = map_option toLowerCase (framework sp);
          v0 = (50, []);
          v1 = (if (case fw of Some f \<Rightarrow> str_includes f ''next'' \<or> str_includes f ''react''
                            | None \<Rightarrow> False)
                then credit 40 ''Built for Next.js and React apps'' v0 else v0);
          v2 = (if \<not> hasDatabase sp \<and> \<not> write_heavy bp
                then credit 20 ''Perfect for serverless API routes'' v1 else v1);
          v3 = (if is_stateful bp \<or> hasDatabase sp then (fst v2 - 20, snd v2) else v2)
      in \<lparr>candidate_id = ''vercel'', candidate_name = ''Vercel'', candidate_score = fst v3,
          whyBullets = take 2 (snd v3),
          whenItChanges = ''If you add databases or stateful features, consider Railway.'',
          confidenceNote = ''Best for static sites and serverless functions.''\<rparr>)"

definition railwayCandidate :: "StackProfile \<Rightarrow> BehaviorProfile \<Rightarrow> PlatformScore" where
  "railwayCandidate sp bp =
     (let w0 = (50, []);
          w1 = (if hasDatabase sp then credit 30 ''Excellent database support'' w0 else w0);
          w2 = (if has_background_jobs bp then credit 25 ''Handles background jobs well'' w1
                else w1);
          w3 = (if write_heavy bp then (fst w2 + 15, snd w2) else w2)
      in \<lparr>candidate_id = ''railway'', candidate_name = ''Railway'', candidate_score = fst w3,
          whyBullets = take 2 (snd w3),
          whenItChanges = ''If you need multi-region or advanced scaling, look at Fly.io.'',
          confidenceNote = ''Great balance of simplicity and power.''\<rparr>)"

definition flyCandidate :: "StackProfile \<Rightarrow> BehaviorProfile \<Rightarrow> PlatformScore" where
  "flyCandidate sp bp =
     (let f0 = (50, []);
          f1 = (if is_stateful bp then credit 35 ''Built for stateful applications'' f0 else f0);
          f2 = (if estimated_concurrency_risk bp = High
                then credit 25 ''Handles high concurrency well'' f1 else f1);
          f3 = (if hasDatabase sp \<and> write_heavy bp then (fst f2 + 20, snd f2) else f2)
      in \<lparr>candidate_id = ''fly'', candidate_name = ''Fly.io'', candidate_score = fst f3,
          whyBullets = take 2 (snd f3),
          whenItChanges = ''This scales with you through production.'',
          confidenceNote = ''Best for apps that need global distribution.''\<rparr>)"

definition rankedPlatforms :: "StackProfile \<Rightarrow> BehaviorProfile \<Rightarrow> PlatformScore list" where
  "rankedPlatforms sp bp =
     sortBy (\<lambda>a b. candidate_score b - candidate_score a)
       [replitCandidate sp bp, vercelCandidate sp bp, railwayCandidate sp bp, flyCandidate sp bp]"

definition stayRecommendation :: "PlatformScore \<Rightarrow> PlatformRecommendation" where
  "stayRecommendation cur =
     \<lparr>platform_id = candidate_id cur,
      platform_name = candidate_name cur,
      recommended_badge = [CHR 0xE2, CHR 0x9C, CHR 0x85] @ '' Stay where you are'',
      why_bullets =
        (if length (whyBullets cur) > 0 then whyBullets cur
         else [''Handles your current usage well'', ''No urgent need to change'']),
      when_it_changes = whenItChanges cur,
      confidence_note = confidenceNote cur\<rparr>"

definition bestRecommendation :: "PlatformScore \<Rightarrow> string option \<Rightarrow> PlatformRecommendation" where
  "bestRecommendation best currentPlatform =
     \<lparr>platform_id = candidate_id best,
      platform_name = candidate_name best,
      recommended_badge =
        (if truthy currentPlatform
         then [CHR 0xE2, CHR 0x9A, CHR 0xA0, CHR 0xEF, CHR 0xB8, CHR 0x8F] @ '' Consider upgrading''
         else [CHR 0xE2, CHR 0x9C, CHR 0x85] @ '' Recommended right now''),
      why_bullets =
        (if length (whyBullets best) > 0 then whyBullets best
         else [''Best fit for your app'' @ [CHR 0x27] @ ''s needs'',
               ''Balances simplicity and capability'']),
      when_it_changes = whenItChanges best,
      confidence_note = confidenceNote best\<rparr>"

text \<open>
  The four candidates are always pushed, so \<open>platforms[0]\<close> exists; the sorted list is
  taken by its shape, and the result is \<open>None\<close> only on an empty list.
\<close>

definition recommendPlatform ::
    "StackProfile \<Rightarrow> BehaviorProfile \<Rightarrow> string option \<Rightarrow> PlatformRecommendation option" where
  "recommendPlatform sp bp currentPlatform =
     (let platforms = rankedPlatforms sp bp;
          stay = (case currentPlatform of
                    None \<Rightarrow> None
                  | Some cp \<Rightarrow>
                      (if cp = [] then None
                       else (case List.find (\<lambda>p. str_includes (toLowerCase cp) (candidate_id p))
                                    platforms of
                               None \<Rightarrow> None
                             | Some cur \<Rightarrow>
                                 (if candidate_score cur \<ge> 70 then Some cur else None))))
      in case stay of
           Some cur \<Rightarrow> Some (stayRecommendation cur)
         | None \<Rightarrow>
             (case platforms of
                [] \<Rightarrow> None
              | best # others \<Rightarrow> Some (bestRecommendation best currentPlatform)))"

section \<open>recommendNextStep\<close>

text \<open>The object literal of a recommendation, field by field.\<close>

definition nextStep :: "step_mode \<Rightarrow> string \<Rightarrow> string \<Rightarrow> string \<Rightarrow> bool
    \<Rightarrow> NextBestStepRecommendation" where
  "nextStep m h e c u =
     \<lparr>mode = m, headline = h, explanation = e, cta_text = c, upgrade_required = u\<rparr>"

text \<open>\<open>database?.toLowerCase().includes(needle)\<close>, falsy on an absent database.\<close>

definition databaseIncludes :: "StackProfile \<Rightarrow> string \<Rightarrow> bool" where
  "databaseIncludes sp needle =
     (case databaseOf sp of Some d \<Rightarrow> str_includes (toLowerCase d) needle | None \<Rightarrow> False)"

definition recommendNextStep ::
    "StackProfile \<Rightarrow> BehaviorProfile \<Rightarrow> stage \<Rightarrow> NextBestStepRecommendation" where
  "recommendNextStep sp bp stg =
     (let hasHighRisk = (estimated_concurrency_risk bp = High \<or> is_stateful bp
                         \<or> external_dependency_count bp > 5)
      in if stg = Mvp then
           (if write_heavy bp \<and> databaseIncludes sp ''sqlite''
            then nextStep WatchOneThing ''Keep an eye on database usage''
                   (''Your SQLite database works fine for now. When you hit ~50 concurrent ''
                    @ ''users, you'' @ [CHR 0x27] @ ''ll want to upgrade to PostgreSQL.'')
                   ''Enable Watch Mode'' False
            else if has_background_jobs bp
            then nextStep WatchOneThing ''Monitor background job performance''
                   (''Background jobs are running on the same server. This is fine for MVP, ''
                    @ ''but watch for slowdowns.'')
                   ''Get alerts when things change'' False
            else nextStep DoNothing ''Nothing right now.''
                   (''You'' @ [CHR 0x27] @ ''re in a good place. Focus on your product.'')
                   ''We can watch this for you'' False)
         else if stg = WatchStage \<or> stg = Growth then
           (if databaseIncludes sp ''sqlite'' \<and> write_heavy bp
            then nextStep SmallUpgrade ''Before charging users, switch to managed DB''
                   (''SQLite works for testing, but you'' @ [CHR 0x27] @ ''ll want PostgreSQL or a ''
                    @ ''managed database before going live with paying customers.'')
                   ''Show me how to upgrade'' (stg = Growth)
            else if has_background_jobs bp \<and> is_stateful bp
            then nextStep SmallUpgrade ''Separate background jobs from main app''
                   (''Move long-running tasks to a separate service or queue to keep your ''
                    @ ''main app responsive.'')
                   ''See upgrade options'' False
            else if external_dependency_count bp > 3
            then nextStep WatchOneThing ''Add monitoring for external APIs''
                   (''You'' @ [CHR 0x27] @ ''re relying on several external services. Set up alerts ''
                    @ ''so you know when they slow down or fail.'')
                   ''Enable API monitoring'' False
            else nextStep WatchOneThing ''Watch for traffic patterns''
                   (''Your setup is solid. Keep an eye on usage patterns to catch issues ''
                    @ ''before they affect users.'')
                   ''Enable Watch Mode'' False)
         else if stg = Production then
           (if hasHighRisk
            then nextStep SmallUpgrade ''Reduce concurrency risks''
                   (''Your app has high concurrency risk. Consider adding caching, ''
                    @ ''connection pooling, or load balancing.'')
                   ''Review upgrade plan'' True
            else if truthy (databaseOf sp) \<and> \<not> databaseIncludes sp ''postgresql''
                    \<and> \<not> databaseIncludes sp ''managed''
            then nextStep SmallUpgrade ''Upgrade to managed database''
                   (''For production stability, use a managed database service with ''
                    @ ''automatic backups and scaling.'')
                   ''See migration guide'' True
            else if has_background_jobs bp
            then nextStep SmallUpgrade ''Use dedicated job queue''
                   (''Production apps need reliable background processing. Consider ''
                    @ ''Redis-backed queues or dedicated workers.'')
                   ''View job queue options'' False
            else nextStep WatchOneThing ''Monitor for regressions''
                   (''Your production setup is solid. Watch for performance regressions ''
                    @ ''as you add features.'')
                   ''Enable Production Plus'' False)
         else nextStep DoNothing ''Nothing right now.''
                (''You'' @ [CHR 0x27] @ ''re in a good place. Focus on your product.'')
                ''We can watch this for you'' False)"

section \<open>generateLaunchVerdict\<close>

text \<open>Step 4 of the verdict: the stage of a confidence score.\<close>

definition stageOf :: "int \<Rightarrow> stage" where
  "stageOf sc =
     (if sc \<ge> 80 then Production else if sc \<ge> 65 then Growth
      else if sc \<ge> 50 then WatchStage else Mvp)"

text \<open>Step 6 of the verdict: the status of a confidence score.\<close>

definition statusOf :: "int \<Rightarrow> verdict_status" where
  "statusOf sc = (if sc \<ge> 80 then Safe else if sc \<ge> 50 then Watch else Fix)"

text \<open>Step 7 of the verdict: the one-line summary.\<close>

definition oneLineSummary :: "verdict_status \<Rightarrow> RiskScenario list \<Rightarrow> string" where
  "oneLineSummary st rs =
     (case st of
        Safe \<Rightarrow>
          (case rs of
             [] \<Rightarrow> ''Your app is safe to launch. The current setup handles your needs well.''
           | r # others \<Rightarrow>
               ''Your app is safe to share. '' @ user_symptom r @ '' may appear as you grow.'')
      | Watch \<Rightarrow>
          (case rs of
             r # others \<Rightarrow> ''Your app works now, but watch for: '' @ toLowerCase (user_symptom r)
           | [] \<Rightarrow> ''Your app is functional. Monitor usage patterns as you grow.'')
      | Fix \<Rightarrow>
          (case rs of
             r # others \<Rightarrow> ''Fix before launch: '' @ plain_explanation r
           | [] \<Rightarrow> ''Your app needs improvements before handling production traffic.''))"

definition generateLaunchVerdict :: "AppAnalysis \<Rightarrow> LaunchVerdict option" where
  "generateLaunchVerdict analysis =
     (let confidence = calculateLaunchConfidence (stack_detection analysis)
                         (behavior_profile analysis);
          rs = detectRisks (stack_detection analysis) (behavior_profile analysis);
          stg = stageOf (score confidence);
          nextBestStep = recommendNextStep (stack_detection analysis)
                           (behavior_profile analysis) stg;
          st = statusOf (score confidence)
      in case recommendPlatform (stack_detection analysis) (behavior_profile analysis)
                (deployment_platform (stack_detection analysis)) of
           None \<Rightarrow> None
         | Some platformRecommendation \<Rightarrow>
             Some \<lparr>analysis_id = analysis_ident analysis,
                   status = st,
                   confidence_score = score confidence,
                   one_line_summary = oneLineSummary st rs,
                   risks = rs,
                   platform_recommendation = platformRecommendation,
                   next_best_step = nextBestStep\<rparr>)"

section \<open>Alert orchestrator (services/alertOrchestrator.ts)\<close>

datatype alert_category =
  UsageGrowth | CostRisk | ArchitectureDrift | PlatformSuitability | StabilityRegression

datatype alert_severity = Informational | HeadsUp | ActionSoon

text \<open>
  An instant is a count of microseconds since the epoch, for the column \<open>created_at\<close> of
  the table as for the time stamp that \<open>createAlert\<close> takes from the clock of the process.
\<close>

record Alert =
  alert_id :: string
  user_id :: string
  alert_analysis_id :: string
  category :: alert_category
  alert_severity :: alert_severity
  alert_title :: string
  body :: string
  what_changed :: "string option"
  next_step :: "string option"
  created_at :: int
  read_at :: "int option"

text \<open>
  The database as \<open>evaluateAlerts\<close> meets it: the rows of the table \<open>alerts\<close>, the value
  of \<open>NOW()\<close>, and whether a query can be run at all (\<open>query\<close> rethrows what the driver
  throws).
\<close>

record Database =
  reachable :: bool
  alerts_table :: "Alert list"
  db_now :: int

text \<open>
  A query fails when the database cannot be reached, and when a parameter compared with a
  column of type \<open>uuid\<close> is not the text of a UUID.
\<close>

datatype failure = QueryError | InvalidUuid

text \<open>\<open>INTERVAL '7 days'\<close>; the session's time zone is UTC, so a day has 24 hours.\<close>

definition sevenDays :: int where
  "sevenDays = 7 * 24 * 60 * 60 * 1000000"

text \<open>
  The columns \<open>user_id\<close> and \<open>analysis_id\<close> of the table are of type \<open>uuid\<close> (schema),
  so PostgreSQL reads each text parameter as a UUID and compares the 16 bytes. Its input
  rule: an optional opening brace; 16 bytes of two hexadecimal digits each, in either
  case, with an optional hyphen after every second byte but the last; the closing brace
  if there was an opening one; then the end of the text. \<open>readBytes n\<close> reads the last
  \<open>n\<close> of the 16 bytes, so the byte read has index \<open>16 - n\<close>.
\<close>

definition hexValue :: "char \<Rightarrow> nat option" where
  "hexValue c =
     (let n = (of_char c :: nat)
      in if 48 \<le> n \<and> n \<le> 57 then Some (n - 48)
         else if 65 \<le> n \<and> n \<le> 70 then Some (n - 55)
         else if 97 \<le> n \<and> n \<le> 102 then Some (n - 87)
         else None)"

fun readBytes :: "nat \<Rightarrow> string \<Rightarrow> (nat list \<times> string) option" where
  "readBytes 0 src = Some ([], src)"
| "readBytes (Suc n) (c1 # c2 # rest) =
     (case (hexValue c1, hexValue c2) of
        (Some h1, Some h2) \<Rightarrow>
          (let i = 15 - n;
               rest' = (case rest of
                          d # after \<Rightarrow> if d = CHR ''-'' \<and> odd i \<and> i < 15 then after else rest
                        | [] \<Rightarrow> rest)
           in case readBytes n rest' of
                Some (bytes, left) \<Rightarrow> Some ((16 * h1 + h2) # bytes, left)
              | None \<Rightarrow> None)
      | _ \<Rightarrow> None)"
| "readBytes (Suc n) src = None"

definition parseUuid :: "string \<Rightarrow> nat list option" where
  "parseUuid s =
     (let braces = (case s of c # cs \<Rightarrow> c = CHR ''{'' | [] \<Rightarrow> False);
          src = (if braces then tl s else s)
      in case readBytes 16 src of
           None \<Rightarrow> None
         | Some (bytes, left) \<Rightarrow>
             (if braces then (if left = ''}'' then Some bytes else None)
              else if left = [] then Some bytes else None))"

text \<open>
  \<open>getMany\<close> on the cooldown query:
  \<open>WHERE user_id = $1 AND analysis_id = $2 AND created_at > NOW() - INTERVAL '7 days'\<close>.
  A row carries its two identifiers as the text PostgreSQL prints for them; the
  comparison is on the UUIDs they denote.
\<close>

definition recentAlertsQuery :: "Database \<Rightarrow> string \<Rightarrow> string \<Rightarrow> failure + Alert list" where
  "recentAlertsQuery db userId analysisId =
     (if \<not> reachable db then Inl QueryError
      else (case (parseUuid userId, parseUuid analysisId) of
              (Some u, Some a) \<Rightarrow>
                Inr (filter (\<lambda>row. parseUuid (user_id row) = Some u
                                  \<and> parseUuid (alert_analysis_id row) = Some a
                                  \<and> created_at row > db_now db - sevenDays)
                       (alerts_table db))
            | _ \<Rightarrow> Inl InvalidUuid))"

definition createAlert :: "int \<Rightarrow> string \<Rightarrow> string \<Rightarrow> alert_category \<Rightarrow> alert_severity
    \<Rightarrow> string \<Rightarrow> string \<Rightarrow> string \<Rightarrow> string \<Rightarrow> Alert" where
  "createAlert clock userId analysisId cat sev ttl bdy changed nxt =
     \<lparr>alert_id = [], user_id = userId, alert_analysis_id = analysisId, category = cat,
      alert_severity = sev, alert_title = ttl, body = bdy, what_changed = Some changed,
      next_step = Some nxt, created_at = clock, read_at = None\<rparr>"

fun levelText :: "level \<Rightarrow> string" where
  "levelText Low = ''low''"
| "levelText Medium = ''medium''"
| "levelText High = ''high''"

text \<open>
  The condition of each rule on the two profiles, that is the rule's \<open>if\<close> without its
  cooldown conjunct.
\<close>

fun triggered :: "alert_category \<Rightarrow> BehaviorProfile \<Rightarrow> BehaviorProfile \<Rightarrow> bool" where
  "triggered UsageGrowth previousProfile newProfile =
     (estimated_concurrency_risk previousProfile \<noteq> High
      \<and> estimated_concurrency_risk newProfile = High)"
| "triggered CostRisk previousProfile newProfile =
     (external_dependency_count newProfile
        > jsAdd (external_dependency_count previousProfile) 2)"
| "triggered ArchitectureDrift previousProfile newProfile =
     (\<not> is_stateful previousProfile \<and> is_stateful newProfile)"
| "triggered PlatformSuitability previousProfile newProfile =
     (has_background_jobs newProfile \<and> write_heavy newProfile)"
| "triggered StabilityRegression previousProfile newProfile =
     (\<not> has_background_jobs previousProfile \<and> has_background_jobs newProfile)"

definition usageGrowthAlert :: "int \<Rightarrow> string \<Rightarrow> string \<Rightarrow> BehaviorProfile \<Rightarrow> Alert" where
  "usageGrowthAlert clock userId analysisId previousProfile =
     createAlert clock userId analysisId UsageGrowth HeadsUp
       ''Your app is handling more traffic''
       (''We noticed your app'' @ [CHR 0x27] @ ''s usage patterns have changed. This is a good sign ''
        @ [CHR 0xE2, CHR 0x80, CHR 0x94] @ '' it means people are using it more.'')
       (''Concurrency risk increased from ''
        @ levelText (estimated_concurrency_risk previousProfile) @ '' to high'')
       (''Keep an eye on response times. If things slow down, we'' @ [CHR 0x27]
        @ ''ll let you know what to do.'')"

definition costRiskAlert ::
    "int \<Rightarrow> string \<Rightarrow> string \<Rightarrow> BehaviorProfile \<Rightarrow> BehaviorProfile \<Rightarrow> Alert" where
  "costRiskAlert clock userId analysisId previousProfile newProfile =
     createAlert clock userId analysisId CostRisk Informational
       ''New external services detected''
       (''Your app now connects to more external services. This is fine, but each service ''
        @ ''may have its own costs.'')
       (''External dependencies increased from ''
        @ numberToString (external_dependency_count previousProfile) @ '' to ''
        @ numberToString (external_dependency_count newProfile))
       (''Review the pricing for any new services you'' @ [CHR 0x27] @ ''re using.'')"

definition architectureDriftAlert :: "int \<Rightarrow> string \<Rightarrow> string \<Rightarrow> Alert" where
  "architectureDriftAlert clock userId analysisId =
     createAlert clock userId analysisId ArchitectureDrift HeadsUp
       ''Your app now stores state''
       (''We detected that your app has started storing data in memory or files. This works ''
        @ ''fine now, but may cause issues if you need to run multiple copies.'')
       ''App changed from stateless to stateful''
       ''Consider using a database for important data instead of in-memory storage.''"

definition platformSuitabilityAlert :: "int \<Rightarrow> string \<Rightarrow> string \<Rightarrow> Alert" where
  "platformSuitabilityAlert clock userId analysisId =
     createAlert clock userId analysisId PlatformSuitability ActionSoon
       ''Your setup might need an upgrade soon''
       (''With background jobs and frequent database writes, you'' @ [CHR 0x27]
        @ ''re doing things that work better with dedicated resources.'')
       ''Detected background jobs combined with write-heavy patterns''
       (''When you'' @ [CHR 0x27] @ ''re ready, we can show you a smoother setup.'')"

definition stabilityRegressionAlert :: "int \<Rightarrow> string \<Rightarrow> string \<Rightarrow> Alert" where
  "stabilityRegressionAlert clock userId analysisId =
     createAlert clock userId analysisId StabilityRegression Informational
       ''Background tasks detected''
       (''Your app now runs tasks in the background. This is common, but make sure long ''
        @ ''tasks don'' @ [CHR 0x27] @ ''t slow down user requests.'')
       ''Background jobs were added''
       ''Consider moving heavy tasks to a separate queue if response times suffer.''"

text \<open>
  \<open>evaluateAlerts\<close>: the query runs first (and may fail), then the missing previous
  profile returns the empty list, then the five rules push in order (\<open>pushIf\<close> is
  \<open>if (cond) alerts.push(x)\<close>). \<open>clock\<close> is the reading of \<open>new Date()\<close>.
\<close>

definition pushIf :: "bool \<Rightarrow> 'a \<Rightarrow> 'a list \<Rightarrow> 'a list" where
  "pushIf cond x xs = (if cond then xs @ [x] else xs)"

definition evaluateAlerts :: "Database \<Rightarrow> int \<Rightarrow> string \<Rightarrow> string \<Rightarrow> BehaviorProfile
    \<Rightarrow> BehaviorProfile option \<Rightarrow> failure + Alert list" where
  "evaluateAlerts db clock analysisId userId newProfile previousProfile =
     (case recentAlertsQuery db userId analysisId of
        Inl e \<Rightarrow> Inl e
      | Inr recentAlerts \<Rightarrow>
          (let recentCategories = set (map category recentAlerts)
           in case previousProfile of
                None \<Rightarrow> Inr []
              | Some prev \<Rightarrow>
                  (let a1 = pushIf (UsageGrowth \<notin> recentCategories
                                    \<and> triggered UsageGrowth prev newProfile)
                              (usageGrowthAlert clock userId analysisId prev) [];
                       a2 = pushIf (CostRisk \<notin> recentCategories
                                    \<and> triggered CostRisk prev newProfile)
                              (costRiskAlert clock userId analysisId prev newProfile) a1;
                       a3 = pushIf (ArchitectureDrift \<notin> recentCategories
                                    \<and> triggered ArchitectureDrift prev newProfile)
                              (architectureDriftAlert clock userId analysisId) a2;
                       a4 = pushIf (PlatformSuitability \<notin> recentCategories
                                    \<and> triggered PlatformSuitability prev newProfile)
                              (platformSuitabilityAlert clock userId analysisId) a3;
                       a5 = pushIf (StabilityRegression \<notin> recentCategories
                                    \<and> triggered StabilityRegression prev newProfile)
                              (stabilityRegressionAlert clock userId analysisId) a4
                   in Inr a5)))"

section \<open>Facts about the sort\<close>

lemma mset_insertBy: "mset (insertBy cmp x xs) = add_mset x (mset xs)"
  by (induction xs) auto

lemma mset_insert_loop:
  "mset (foldl (\<lambda>acc x. insertBy cmp x acc) acc xs) = mset acc + mset xs"
  by (induction xs arbitrary: acc) (auto simp: mset_insertBy)

lemma mset_sortBy: "mset (sortBy cmp xs) = mset xs"
  by (simp add: sortBy_def mset_insert_loop)

lemma length_sortBy: "length (sortBy cmp xs) = length xs"
proof -
  have "size (mset (sortBy cmp xs)) = size (mset xs)"
    by (simp add: mset_sortBy)
  then show ?thesis by simp
qed

lemma set_sortBy: "set (sortBy cmp xs) = set xs"
proof -
  have "set_mset (mset (sortBy cmp xs)) = set_mset (mset xs)"
    by (simp add: mset_sortBy)
  then show ?thesis by simp
qed

lemma set_insertBy: "set (insertBy cmp x xs) = insert x (set xs)"
  by (induction xs) auto

lemma sorted_insertBy:
  assumes total: "\<And>a b. \<not> cmp a b < 0 \<Longrightarrow> cmp b a \<le> 0"
    and trans: "\<And>a b c. cmp a b \<le> 0 \<Longrightarrow> cmp b c \<le> 0 \<Longrightarrow> cmp a c \<le> 0"
    and sorted: "sorted_wrt (\<lambda>a b. cmp a b \<le> 0) xs"
  shows "sorted_wrt (\<lambda>a b. cmp a b \<le> 0) (insertBy cmp x xs)"
  using sorted
proof (induction xs)
  case Nil
  then show ?case by simp
next
  case (Cons y ys)
  show ?case
  proof (cases "cmp x y < 0")
    case True
    then have xy: "cmp x y \<le> 0" by simp
    have "\<forall>z\<in>set ys. cmp x z \<le> 0"
      using Cons.prems xy trans by auto
    with True xy Cons.prems show ?thesis by simp
  next
    case False
    then have "cmp y x \<le> 0" by (rule total)
    with False Cons show ?thesis by (auto simp: set_insertBy)
  qed
qed

lemma sorted_insert_loop:
  assumes total: "\<And>a b. \<not> cmp a b < 0 \<Longrightarrow> cmp b a \<le> 0"
    and trans: "\<And>a b c. cmp a b \<le> 0 \<Longrightarrow> cmp b c \<le> 0 \<Longrightarrow> cmp a c \<le> 0"
  shows "sorted_wrt (\<lambda>a b. cmp a b \<le> 0) acc
    \<Longrightarrow> sorted_wrt (\<lambda>a b. cmp a b \<le> 0) (foldl (\<lambda>acc x. insertBy cmp x acc) acc xs)"
proof (induction xs arbitrary: acc)
  case Nil
  then show ?case by simp
next
  case (Cons x xs)
  have "sorted_wrt (\<lambda>a b. cmp a b \<le> 0) (insertBy cmp x acc)"
    using total trans Cons.prems by (rule sorted_insertBy)
  then show ?case using Cons.IH by simp
qed

lemma compareRisks_le:
  "compareRisks a b \<le> 0 \<longleftrightarrow>
     severityWeight (severity b) < severityWeight (severity a)
     \<or> (severityWeight (severity a) = severityWeight (severity b)
        \<and> display_order a \<le> display_order b)"
  by (auto simp: compareRisks_def Let_def)

lemma compareRisks_less:
  "compareRisks a b < 0 \<longleftrightarrow>
     severityWeight (severity b) < severityWeight (severity a)
     \<or> (severityWeight (severity a) = severityWeight (severity b)
        \<and> display_order a < display_order b)"
  by (auto simp: compareRisks_def Let_def)

lemma sorted_sortBy_compareRisks:
  "sorted_wrt (\<lambda>a b. compareRisks a b \<le> 0) (sortBy compareRisks xs)"
  unfolding sortBy_def
proof (rule sorted_insert_loop)
  fix a b :: RiskScenario
  assume "\<not> compareRisks a b < 0"
  then show "compareRisks b a \<le> 0"
    unfolding compareRisks_le compareRisks_less by linarith
next
  fix a b c :: RiskScenario
  assume "compareRisks a b \<le> 0" "compareRisks b c \<le> 0"
  then show "compareRisks a c \<le> 0"
    unfolding compareRisks_le by linarith
qed simp

section \<open>Facts about the loops of detectStack\<close>

lemma detectFramework_fields:
  "runtime (detectFramework deps tbl sp) = runtime sp
   \<and> database (detectFramework deps tbl sp) = database sp
   \<and> databases (detectFramework deps tbl sp) = databases sp"
  by (induction deps tbl sp rule: detectFramework.induct) auto

lemma detectDatabases_fields:
  "runtime (detectDatabases deps tbl sp) = runtime sp
   \<and> database (detectDatabases deps tbl sp) = database sp"
  by (induction deps tbl sp rule: detectDatabases.induct) auto

lemma detectDatabases_appends:
  "databases sp = Some dbs \<Longrightarrow> \<exists>more. databases (detectDatabases deps tbl sp) = Some (dbs @ more)"
proof (induction tbl arbitrary: sp dbs)
  case Nil
  then show ?case by simp
next
  case (Cons entry rest)
  obtain pkg db where entry: "entry = (pkg, db)"
    by (cases entry)
  show ?case
  proof (cases "truthy (getProp deps pkg) \<and> db \<notin> set dbs")
    case True
    let ?sp = "sp\<lparr>databases := Some (dbs @ [db])\<rparr>"
    have "databases ?sp = Some (dbs @ [db])"
      by simp
    then have "\<exists>more. databases (detectDatabases deps rest ?sp) = Some ((dbs @ [db]) @ more)"
      by (rule Cons.IH)
    then obtain more where "databases (detectDatabases deps rest ?sp) = Some (dbs @ db # more)"
      by auto
    with True Cons.prems entry show ?thesis by auto
  next
    case False
    have "\<exists>more. databases (detectDatabases deps rest sp) = Some (dbs @ more)"
      using Cons.prems by (rule Cons.IH)
    with False Cons.prems entry show ?thesis by auto
  qed
qed

lemma detectApis_fields:
  "runtime (detectApis deps tbl sp) = runtime sp
   \<and> database (detectApis deps tbl sp) = database sp
   \<and> databases (detectApis deps tbl sp) = databases sp"
  by (induction deps tbl sp rule: detectApis.induct) auto

lemma detectPlatform_fields:
  "runtime (detectPlatform ac sp) = runtime sp
   \<and> database (detectPlatform ac sp) = database sp
   \<and> databases (detectPlatform ac sp) = databases sp"
  by (simp add: detectPlatform_def)

lemma setPrimaryDatabase_runtime: "runtime (setPrimaryDatabase sp) = runtime sp"
  by (simp add: setPrimaryDatabase_def split: option.splits list.splits)

lemma nodeDetection_runtime: "runtime (nodeDetection ac pj sp) = Some ''Node.js''"
  by (simp add: nodeDetection_def Let_def detectPlatform_fields detectApis_fields
      setPrimaryDatabase_runtime detectDatabases_fields detectFramework_fields)

lemma nodeDetection_databases:
  assumes "databases sp = Some []" and "database sp = None"
  shows "\<exists>dbs. databases (nodeDetection ac pj sp) = Some dbs
           \<and> database (nodeDetection ac pj sp)
               = (case dbs of [] \<Rightarrow> None | d # ds \<Rightarrow> Some d)"
proof -
  let ?deps = "mergedDeps pj"
  let ?sp2 = "detectFramework ?deps frameworks (sp\<lparr>runtime := Some ''Node.js''\<rparr>)"
  let ?sp3 = "detectDatabases ?deps dbMapping ?sp2"
  have "databases ?sp2 = Some []"
    using assms by (simp add: detectFramework_fields)
  then obtain dbs where dbs: "databases ?sp3 = Some dbs"
    using detectDatabases_appends [of ?sp2 "[]" ?deps dbMapping] by auto
  have db: "database ?sp3 = None"
    using assms by (simp add: detectDatabases_fields detectFramework_fields)
  have "databases (setPrimaryDatabase ?sp3) = Some dbs
      \<and> database (setPrimaryDatabase ?sp3) = (case dbs of [] \<Rightarrow> None | d # ds \<Rightarrow> Some d)"
    using dbs db by (simp add: setPrimaryDatabase_def split: list.splits)
  then show ?thesis
    by (simp add: nodeDetection_def Let_def detectPlatform_fields detectApis_fields)
qed

lemma pythonDetection_databases:
  assumes "databases sp = Some dbs"
    and "database sp = (case dbs of [] \<Rightarrow> None | d # ds \<Rightarrow> Some d)"
  shows "\<exists>dbs'. databases (pythonDetection req sp) = Some dbs'
           \<and> database (pythonDetection req sp) = (case dbs' of [] \<Rightarrow> None | d # ds \<Rightarrow> Some d)"
  using assms
  by (cases dbs)
     (simp_all add: pythonDetection_def pushDatabase_def setPrimaryDatabase_def Let_def)

section \<open>Facts about the verdict\<close>

lemma rankedPlatforms_set:
  "set (rankedPlatforms sp bp) =
     {replitCandidate sp bp, vercelCandidate sp bp, railwayCandidate sp bp, flyCandidate sp bp}"
  by (simp add: rankedPlatforms_def set_sortBy)

lemma rankedPlatforms_nonempty: "rankedPlatforms sp bp \<noteq> []"
proof -
  have "length (rankedPlatforms sp bp) = 4"
    by (simp add: rankedPlatforms_def length_sortBy)
  then show ?thesis by auto
qed

lemma recommendPlatform_returns: "\<exists>r. recommendPlatform sp bp cp = Some r"
  using rankedPlatforms_nonempty [of sp bp]
  by (auto simp: recommendPlatform_def Let_def split: option.splits list.splits)

lemma generateLaunchVerdict_returns:
  "\<exists>v. generateLaunchVerdict a = Some v
       \<and> confidence_score v
           = score (calculateLaunchConfidence (stack_detection a) (behavior_profile a))
       \<and> status v = statusOf (confidence_score v)"
proof -
  obtain r where "recommendPlatform (stack_detection a) (behavior_profile a)
      (deployment_platform (stack_detection a)) = Some r"
    using recommendPlatform_returns by blast
  then show ?thesis
    by (simp add: generateLaunchVerdict_def Let_def)
qed

section \<open>Facts about the alert rules\<close>

lemma categories_pushIf:
  "category ` set (pushIf cond x xs)
     = (if cond then insert (category x) (category ` set xs) else category ` set xs)"
  by (simp add: pushIf_def)

lemma alert_categories:
  "category (usageGrowthAlert clock uid aid prev) = UsageGrowth"
  "category (costRiskAlert clock uid aid prev newP) = CostRisk"
  "category (architectureDriftAlert clock uid aid) = ArchitectureDrift"
  "category (platformSuitabilityAlert clock uid aid) = PlatformSuitability"
  "category (stabilityRegressionAlert clock uid aid) = StabilityRegression"
  by (simp_all add: usageGrowthAlert_def costRiskAlert_def architectureDriftAlert_def
      platformSuitabilityAlert_def stabilityRegressionAlert_def createAlert_def)

lemma evaluateAlerts_fails:
  "evaluateAlerts db clock aid uid newP previous = Inr alerts
     \<Longrightarrow> reachable db \<and> parseUuid uid \<noteq> None \<and> parseUuid aid \<noteq> None"
  by (auto simp: evaluateAlerts_def recentAlertsQuery_def
      split: if_splits option.splits sum.splits)

lemma evaluateAlerts_categories:
  assumes "reachable db" and "parseUuid uid \<noteq> None" and "parseUuid aid \<noteq> None"
  shows "\<exists>alerts. evaluateAlerts db clock aid uid newP (Some prev) = Inr alerts
    \<and> category ` set alerts =
        {c. triggered c prev newP
            \<and> c \<notin> category ` {r \<in> set (alerts_table db).
                  parseUuid (user_id r) = parseUuid uid
                  \<and> parseUuid (alert_analysis_id r) = parseUuid aid
                  \<and> created_at r > db_now db - sevenDays}}"
proof -
  obtain u a where ids: "parseUuid uid = Some u" "parseUuid aid = Some a"
    using assms by auto
  let ?recent = "filter (\<lambda>row. parseUuid (user_id row) = Some u
                            \<and> parseUuid (alert_analysis_id row) = Some a
                            \<and> created_at row > db_now db - sevenDays) (alerts_table db)"
  define R where "R = category ` {r \<in> set (alerts_table db).
                  parseUuid (user_id r) = parseUuid uid
                  \<and> parseUuid (alert_analysis_id r) = parseUuid aid
                  \<and> created_at r > db_now db - sevenDays}"
  define U where "U = (UsageGrowth \<notin> R \<and> triggered UsageGrowth prev newP)"
  define C where "C = (CostRisk \<notin> R \<and> triggered CostRisk prev newP)"
  define A where "A = (ArchitectureDrift \<notin> R \<and> triggered ArchitectureDrift prev newP)"
  define P where "P = (PlatformSuitability \<notin> R \<and> triggered PlatformSuitability prev newP)"
  define S where "S = (StabilityRegression \<notin> R \<and> triggered StabilityRegression prev newP)"
  define alerts where "alerts =
    pushIf S (stabilityRegressionAlert clock uid aid)
      (pushIf P (platformSuitabilityAlert clock uid aid)
        (pushIf A (architectureDriftAlert clock uid aid)
          (pushIf C (costRiskAlert clock uid aid prev newP)
            (pushIf U (usageGrowthAlert clock uid aid prev) []))))"
  have q: "recentAlertsQuery db uid aid = Inr ?recent"
    using assms(1) ids by (simp add: recentAlertsQuery_def)
  have cats: "set (map category ?recent) = R"
    unfolding R_def ids by auto
  have res: "evaluateAlerts db clock aid uid newP (Some prev) = Inr alerts"
    unfolding evaluateAlerts_def q alerts_def U_def C_def A_def P_def S_def
    by (simp only: sum.case Let_def cats option.case)
  have img: "category ` set alerts =
      (if S then {StabilityRegression} else {}) \<union> (if P then {PlatformSuitability} else {})
      \<union> (if A then {ArchitectureDrift} else {}) \<union> (if C then {CostRisk} else {})
      \<union> (if U then {UsageGrowth} else {})"
    unfolding alerts_def by (simp add: categories_pushIf alert_categories)
  have "c \<in> category ` set alerts \<longleftrightarrow> triggered c prev newP \<and> c \<notin> R" for c
    unfolding img by (cases c) (simp_all add: U_def C_def A_def P_def S_def conj_commute)
  then have "category ` set alerts = {c. triggered c prev newP \<and> c \<notin> R}"
    by blast
  with res show ?thesis
    unfolding R_def by blast
qed

section \<open>Stack detection\<close>

text \<open>
  C1. The claim: when a manifest and a Python dependency list are both present, the
  runtime of the detected stack is the Node value. In the code the Python block runs
  after the Node block and assigns \<open>runtime\<close> again, so on the manifest \<open>{}\<close> with the
  dependency list \<open>flask\<close> the runtime is \<open>Python\<close>.
\<close>

theorem C1_python_overrides_node:
  "runtime (detectStack \<lparr>files = [],
      packageJson = Some \<lparr>dependencies = None, devDependencies = None\<rparr>,
      requirements = Some ''flask''\<rparr>) = Some ''Python''"
  by code_simp

text \<open>
  C2. The claim: a package declared under \<open>devDependencies\<close> only does not contribute to
  \<open>external_apis\<close>. In the code the two dependency objects are merged before the scan,
  so \<open>stripe\<close> under \<open>devDependencies\<close> puts \<open>Stripe\<close> into the list.
\<close>

theorem C2_dev_dependency_counted:
  "external_apis (detectStack \<lparr>files = [],
      packageJson =
        Some \<lparr>dependencies = Some [(''express'', ''1.0.0'')],
              devDependencies = Some [(''vitest'', ''1.0.0''), (''stripe'', ''1.0.0'')]\<rparr>,
      requirements = None\<rparr>) = Some [''Stripe'']"
  by code_simp

text \<open>
  C9. In every detected stack a present \<open>database\<close> is the first element of the list
  \<open>databases\<close>, and when \<open>database\<close> is absent the list is the empty array: the list
  itself is always present, since the code starts it as \<open>[]\<close> and only pushes. This
  covers the inputs where the Node block and the Python block both push.
\<close>

theorem C9_primary_database_is_first:
  "(\<forall>d. database (detectStack ac) = Some d
        \<longrightarrow> (\<exists>ds. databases (detectStack ac) = Some (d # ds)))
   \<and> (database (detectStack ac) = None \<longrightarrow> databases (detectStack ac) = Some [])"
proof -
  let ?sp1 = "case packageJson ac of Some pj \<Rightarrow> nodeDetection ac pj emptyStackProfile
                | None \<Rightarrow> emptyStackProfile"
  let ?sp2 = "case requirements ac of
                Some req \<Rightarrow> (if req \<noteq> [] then pythonDetection req ?sp1 else ?sp1)
              | None \<Rightarrow> ?sp1"
  have e: "databases emptyStackProfile = Some [] \<and> database emptyStackProfile = None"
    by (simp add: emptyStackProfile_def)
  have one: "\<exists>dbs. databases ?sp1 = Some dbs
      \<and> database ?sp1 = (case dbs of [] \<Rightarrow> None | d # ds \<Rightarrow> Some d)"
  proof (cases "packageJson ac")
    case None
    with e show ?thesis by simp
  next
    case (Some pj)
    with e nodeDetection_databases [of emptyStackProfile ac pj] show ?thesis by simp
  qed
  then obtain dbs where dbs: "databases ?sp1 = Some dbs"
      "database ?sp1 = (case dbs of [] \<Rightarrow> None | d # ds \<Rightarrow> Some d)"
    by blast
  have two: "\<exists>dbs'. databases ?sp2 = Some dbs'
      \<and> database ?sp2 = (case dbs' of [] \<Rightarrow> None | d # ds \<Rightarrow> Some d)"
  proof (cases "requirements ac")
    case None
    with dbs show ?thesis by simp
  next
    case (Some req)
    show ?thesis
    proof (cases "req = []")
      case True
      with Some dbs show ?thesis by simp
    next
      case False
      with Some pythonDetection_databases [OF dbs, of req] show ?thesis by simp
    qed
  qed
  then obtain dbs' where "databases ?sp2 = Some dbs'"
      "database ?sp2 = (case dbs' of [] \<Rightarrow> None | d # ds \<Rightarrow> Some d)"
    by blast
  then have "databases (detectStack ac) = Some dbs'
      \<and> database (detectStack ac) = (case dbs' of [] \<Rightarrow> None | d # ds \<Rightarrow> Some d)"
    by (simp add: detectStack_def Let_def)
  then show ?thesis
    by (cases dbs') auto
qed

theorem C9_primary_database_witness:
  "database (detectStack \<lparr>files = [],
       packageJson = Some \<lparr>dependencies = Some [(''pg'', ''8.11.0'')], devDependencies = None\<rparr>,
       requirements = Some ''mysqlclient==2.2.0''\<rparr>) = Some ''PostgreSQL''
   \<and> (\<exists>ds. databases (detectStack \<lparr>files = [],
       packageJson = Some \<lparr>dependencies = Some [(''pg'', ''8.11.0'')], devDependencies = None\<rparr>,
       requirements = Some ''mysqlclient==2.2.0''\<rparr>) = Some (''PostgreSQL'' # ds))
   \<and> database (detectStack \<lparr>files = [], packageJson = None, requirements = None\<rparr>) = None
   \<and> databases (detectStack \<lparr>files = [], packageJson = None, requirements = None\<rparr>) = Some []"
proof -
  let ?both = "\<lparr>files = [],
       packageJson = Some \<lparr>dependencies = Some [(''pg'', ''8.11.0'')], devDependencies = None\<rparr>,
       requirements = Some ''mysqlclient==2.2.0''\<rparr>"
  let ?none = "\<lparr>files = [], packageJson = None, requirements = None\<rparr>"
  have present: "database (detectStack ?both) = Some ''PostgreSQL''"
    by code_simp
  have absent: "database (detectStack ?none) = None"
    by code_simp
  from present C9_primary_database_is_first [of ?both]
  have first: "\<exists>ds. databases (detectStack ?both) = Some (''PostgreSQL'' # ds)"
    by blast
  from absent C9_primary_database_is_first [of ?none]
  have empty: "databases (detectStack ?none) = Some []"
    by blast
  from present first absent empty show ?thesis
    by blast
qed

text \<open>
  As worded, with \<open>databases\<close> absent whenever \<open>database\<close> is, the property fails on the
  empty input: \<open>database\<close> is absent and \<open>databases\<close> is present, as the empty array.
\<close>

theorem C9_databases_present_counterexample:
  "database (detectStack \<lparr>files = [], packageJson = None, requirements = None\<rparr>) = None
   \<and> databases (detectStack \<lparr>files = [], packageJson = None, requirements = None\<rparr>) \<noteq> None"
  by code_simp

section \<open>Behaviour analysis\<close>

text \<open>
  C3. The concurrency risk of the returned profile is a function of its other fields, of
  the database of the detected stack and of the pooling indicator: high when the
  database names SQLite and the profile is write-heavy, or when the profile is stateful
  and no text \<open>pool\<close> occurs in the files; else medium on background jobs or more than
  10 dependencies; else low.
\<close>

theorem C3_concurrency_risk_derived:
  "estimated_concurrency_risk (analyzePatterns ac) =
     (if (isSQLite (detectStack ac) \<and> write_heavy (analyzePatterns ac))
         \<or> (is_stateful (analyzePatterns ac) \<and> \<not> hasPooling (codeContentOf ac))
      then High
      else if has_background_jobs (analyzePatterns ac)
              \<or> external_dependency_count (analyzePatterns ac) > 10
      then Medium
      else Low)"
  by (simp add: analyzePatterns_def Let_def split: option.splits)

theorem C3_concurrency_risk_witness:
  "isSQLite (detectStack \<lparr>files = [(''db.js'', ''db.save(u)'')],
       packageJson = Some \<lparr>dependencies = Some [(''sqlite3'', ''5.1.0'')], devDependencies = None\<rparr>,
       requirements = None\<rparr>)
   \<and> write_heavy (analyzePatterns \<lparr>files = [(''db.js'', ''db.save(u)'')],
       packageJson = Some \<lparr>dependencies = Some [(''sqlite3'', ''5.1.0'')], devDependencies = None\<rparr>,
       requirements = None\<rparr>)
   \<and> estimated_concurrency_risk (analyzePatterns
       \<lparr>files = [(''db.js'', ''db.save(u)'')],
       packageJson = Some \<lparr>dependencies = Some [(''sqlite3'', ''5.1.0'')], devDependencies = None\<rparr>,
       requirements = None\<rparr>) = High"
proof -
  let ?ac = "\<lparr>files = [(''db.js'', ''db.save(u)'')],
       packageJson = Some \<lparr>dependencies = Some [(''sqlite3'', ''5.1.0'')], devDependencies = None\<rparr>,
       requirements = None\<rparr>"
  have sqlite: "isSQLite (detectStack ?ac)"
    by code_simp
  have w: "countAll writePatterns ''db.save(u)'' = 1"
    by code_simp
  have r: "countAll readPatterns ''db.save(u)'' = 0"
    by code_simp
  have writes: "write_heavy (analyzePatterns ?ac)"
    by (simp add: analyzePatterns_def Let_def codeContentOf_def w r)
  from sqlite writes C3_concurrency_risk_derived [of ?ac]
  have high: "estimated_concurrency_risk (analyzePatterns ?ac) = High"
    by simp
  from sqlite writes high show ?thesis
    by blast
qed

text \<open>
  C8. On the empty file map without a manifest (whatever the dependency list),
  \<open>analyzePatterns\<close> returns the profile with every flag false, risk low and count 0;
  without a manifest and without a dependency list (whatever the files), \<open>detectStack\<close>
  returns the profile with two empty lists and every other field absent. Both are plain
  values: neither function has a failing path.
\<close>

theorem C8_degrades_on_missing_input:
  "analyzePatterns \<lparr>files = [], packageJson = None, requirements = req\<rparr>
     = \<lparr>is_stateful = False, write_heavy = False, has_background_jobs = False,
        has_file_uploads = False, estimated_concurrency_risk = Low,
        external_dependency_count = 0\<rparr>
   \<and> detectStack \<lparr>files = fs, packageJson = None, requirements = None\<rparr>
     = \<lparr>runtime = None, framework = None, database = None, databases = Some [],
        external_apis = Some [], stack_has_background_jobs = None,
        stack_has_file_uploads = None, deployment_platform = None\<rparr>"
proof
  have st: "list_ex (\<lambda>re. test re []) statePatterns = False" by code_simp
  have bg: "list_ex (\<lambda>re. test re []) bgJobPatterns = False" by code_simp
  have up: "list_ex (\<lambda>re. test re []) uploadPatterns = False" by code_simp
  have w: "countAll writePatterns [] = 0" by code_simp
  have r: "countAll readPatterns [] = 0" by code_simp
  show "analyzePatterns \<lparr>files = [], packageJson = None, requirements = req\<rparr>
     = \<lparr>is_stateful = False, write_heavy = False, has_background_jobs = False,
        has_file_uploads = False, estimated_concurrency_risk = Low,
        external_dependency_count = 0\<rparr>"
    by (simp add: analyzePatterns_def codeContentOf_def st bg up w r Let_def)
  show "detectStack \<lparr>files = fs, packageJson = None, requirements = None\<rparr>
     = \<lparr>runtime = None, framework = None, database = None, databases = Some [],
        external_apis = Some [], stack_has_background_jobs = None,
        stack_has_file_uploads = None, deployment_platform = None\<rparr>"
    by (simp add: detectStack_def emptyStackProfile_def uniqueInOrder_def Let_def)
qed

theorem C8_degrades_witness:
  "analyzePatterns \<lparr>files = [], packageJson = None, requirements = Some ''flask''\<rparr>
     = \<lparr>is_stateful = False, write_heavy = False, has_background_jobs = False,
        has_file_uploads = False, estimated_concurrency_risk = Low,
        external_dependency_count = 0\<rparr>
   \<and> detectStack \<lparr>files = [(''README.md'', ''hello'')], packageJson = None,
        requirements = None\<rparr>
     = \<lparr>runtime = None, framework = None, database = None, databases = Some [],
        external_apis = Some [], stack_has_background_jobs = None,
        stack_has_file_uploads = None, deployment_platform = None\<rparr>"
  using C8_degrades_on_missing_input [of "Some ''flask''" "[(''README.md'', ''hello'')]"]
  by simp

section \<open>Judgment engine\<close>

text \<open>
  C4. For the stack \<open>{database: "SQLite"}\<close> and the behaviour stateless, write-heavy,
  no background jobs, no uploads, concurrency risk high, one dependency: the confidence
  score is 30 + 10 + 20 + 5 = 65, the status of the verdict is \<open>watch\<close>, and the first
  risk returned is "Database contention" with severity high.
\<close>

theorem C4_example_scenario:
  "score (calculateLaunchConfidence
      \<lparr>runtime = None, framework = None, database = Some ''SQLite'', databases = None,
       external_apis = None, stack_has_background_jobs = None,
       stack_has_file_uploads = None, deployment_platform = None\<rparr>
      \<lparr>is_stateful = False, write_heavy = True, has_background_jobs = False,
       has_file_uploads = False, estimated_concurrency_risk = High,
       external_dependency_count = 1\<rparr>) = 30 + 10 + 20 + 5
   \<and> statusOf 65 = Watch
   \<and> map_option (\<lambda>v. (confidence_score v, status v))
        (generateLaunchVerdict
          \<lparr>analysis_ident = ''analysis-1'',
           stack_detection =
             \<lparr>runtime = None, framework = None, database = Some ''SQLite'', databases = None,
              external_apis = None, stack_has_background_jobs = None,
              stack_has_file_uploads = None, deployment_platform = None\<rparr>,
           behavior_profile =
             \<lparr>is_stateful = False, write_heavy = True, has_background_jobs = False,
              has_file_uploads = False, estimated_concurrency_risk = High,
              external_dependency_count = 1\<rparr>\<rparr>) = Some (65, Watch)
   \<and> map (\<lambda>r. (title r, severity r))
        (take 1 (detectRisks
          \<lparr>runtime = None, framework = None, database = Some ''SQLite'', databases = None,
           external_apis = None, stack_has_background_jobs = None,
           stack_has_file_uploads = None, deployment_platform = None\<rparr>
          \<lparr>is_stateful = False, write_heavy = True, has_background_jobs = False,
           has_file_uploads = False, estimated_concurrency_risk = High,
           external_dependency_count = 1\<rparr>)) = [(''Database contention'', High)]"
  by code_simp

text \<open>
  C5. \<open>detectRisks\<close> returns at most 3 scenarios. They are the front of a ranking of the
  firing candidates: together with some remainder they are a permutation of the
  candidates, sorted by severity weight descending and by display order ascending among
  equal weights, and the remainder is empty unless 3 scenarios are returned. When none
  of the five rules fires, the result is the empty list.
\<close>

theorem C5_risks_ranked_and_capped:
  "length (detectRisks sp bp) \<le> 3
   \<and> (\<exists>rest. mset (detectRisks sp bp @ rest) = mset (candidateRisks sp bp)
        \<and> sorted_wrt
            (\<lambda>a b. severityWeight (severity b) < severityWeight (severity a)
                  \<or> (severityWeight (severity a) = severityWeight (severity b)
                     \<and> display_order a \<le> display_order b))
            (detectRisks sp bp @ rest)
        \<and> (rest = [] \<or> length (detectRisks sp bp) = 3))
   \<and> (\<not> dbContentionFires sp bp \<and> \<not> costExplosionFires sp \<and> \<not> externalDepsFires bp
       \<and> \<not> backgroundBlockingFires bp \<and> \<not> concurrencyFires bp
       \<longrightarrow> detectRisks sp bp = [])"
proof (intro conjI)
  let ?s = "sortBy compareRisks (candidateRisks sp bp)"
  show "length (detectRisks sp bp) \<le> 3"
    by (simp add: detectRisks_def)
  have m: "mset (take 3 ?s @ drop 3 ?s) = mset (candidateRisks sp bp)"
    by (simp add: mset_sortBy)
  have "sorted_wrt (\<lambda>a b. compareRisks a b \<le> 0) ?s"
    by (rule sorted_sortBy_compareRisks)
  then have s: "sorted_wrt
      (\<lambda>a b. severityWeight (severity b) < severityWeight (severity a)
            \<or> (severityWeight (severity a) = severityWeight (severity b)
               \<and> display_order a \<le> display_order b))
      (take 3 ?s @ drop 3 ?s)"
    by (simp add: compareRisks_le)
  have l: "drop 3 ?s = [] \<or> length (take 3 ?s) = 3"
    by auto
  from m s l show "\<exists>rest. mset (detectRisks sp bp @ rest) = mset (candidateRisks sp bp)
        \<and> sorted_wrt
            (\<lambda>a b. severityWeight (severity b) < severityWeight (severity a)
                  \<or> (severityWeight (severity a) = severityWeight (severity b)
                     \<and> display_order a \<le> display_order b))
            (detectRisks sp bp @ rest)
        \<and> (rest = [] \<or> length (detectRisks sp bp) = 3)"
    unfolding detectRisks_def by blast
  show "\<not> dbContentionFires sp bp \<and> \<not> costExplosionFires sp \<and> \<not> externalDepsFires bp
       \<and> \<not> backgroundBlockingFires bp \<and> \<not> concurrencyFires bp
       \<longrightarrow> detectRisks sp bp = []"
    by (simp add: detectRisks_def candidateRisks_def sortBy_def)
qed

theorem C5_risks_witness:
  "length (detectRisks
      \<lparr>runtime = None, framework = None, database = Some ''SQLite'', databases = None,
       external_apis = None, stack_has_background_jobs = None,
       stack_has_file_uploads = None, deployment_platform = Some ''Vercel''\<rparr>
      \<lparr>is_stateful = True, write_heavy = True, has_background_jobs = True,
       has_file_uploads = False, estimated_concurrency_risk = High,
       external_dependency_count = 7\<rparr>) \<le> 3
   \<and> map risk_id (candidateRisks
      \<lparr>runtime = None, framework = None, database = Some ''SQLite'', databases = None,
       external_apis = None, stack_has_background_jobs = None,
       stack_has_file_uploads = None, deployment_platform = Some ''Vercel''\<rparr>
      \<lparr>is_stateful = True, write_heavy = True, has_background_jobs = True,
       has_file_uploads = False, estimated_concurrency_risk = High,
       external_dependency_count = 7\<rparr>)
      = [''db-contention'', ''cost-explosion'', ''external-deps'', ''background-blocking'',
         ''concurrency-risk'']
   \<and> map risk_id (detectRisks
      \<lparr>runtime = None, framework = None, database = Some ''SQLite'', databases = None,
       external_apis = None, stack_has_background_jobs = None,
       stack_has_file_uploads = None, deployment_platform = Some ''Vercel''\<rparr>
      \<lparr>is_stateful = True, write_heavy = True, has_background_jobs = True,
       has_file_uploads = False, estimated_concurrency_risk = High,
       external_dependency_count = 7\<rparr>)
      = [''db-contention'', ''external-deps'', ''concurrency-risk'']
   \<and> \<not> dbContentionFires emptyStackProfile
        \<lparr>is_stateful = False, write_heavy = False, has_background_jobs = False,
         has_file_uploads = False, estimated_concurrency_risk = Low,
         external_dependency_count = 2\<rparr>
   \<and> \<not> costExplosionFires emptyStackProfile
   \<and> \<not> externalDepsFires
        \<lparr>is_stateful = False, write_heavy = False, has_background_jobs = False,
         has_file_uploads = False, estimated_concurrency_risk = Low,
         external_dependency_count = 2\<rparr>
   \<and> \<not> backgroundBlockingFires
        \<lparr>is_stateful = False, write_heavy = False, has_background_jobs = False,
         has_file_uploads = False, estimated_concurrency_risk = Low,
         external_dependency_count = 2\<rparr>
   \<and> \<not> concurrencyFires
        \<lparr>is_stateful = False, write_heavy = False, has_background_jobs = False,
         has_file_uploads = False, estimated_concurrency_risk = Low,
         external_dependency_count = 2\<rparr>
   \<and> detectRisks emptyStackProfile
        \<lparr>is_stateful = False, write_heavy = False, has_background_jobs = False,
         has_file_uploads = False, estimated_concurrency_risk = Low,
         external_dependency_count = 2\<rparr> = []"
proof -
  let ?sp = "\<lparr>runtime = None, framework = None, database = Some ''SQLite'', databases = None,
       external_apis = None, stack_has_background_jobs = None,
       stack_has_file_uploads = None, deployment_platform = Some ''Vercel''\<rparr>"
  let ?bp = "\<lparr>is_stateful = True, write_heavy = True, has_background_jobs = True,
       has_file_uploads = False, estimated_concurrency_risk = High,
       external_dependency_count = 7\<rparr>"
  let ?quiet = "\<lparr>is_stateful = False, write_heavy = False, has_background_jobs = False,
         has_file_uploads = False, estimated_concurrency_risk = Low,
         external_dependency_count = 2\<rparr>"
  have cap: "length (detectRisks ?sp ?bp) \<le> 3"
    using C5_risks_ranked_and_capped [of ?sp ?bp] by blast
  have five: "map risk_id (candidateRisks ?sp ?bp)
      = [''db-contention'', ''cost-explosion'', ''external-deps'', ''background-blocking'',
         ''concurrency-risk'']"
    by code_simp
  have three: "map risk_id (detectRisks ?sp ?bp)
      = [''db-contention'', ''external-deps'', ''concurrency-risk'']"
    by code_simp
  have none: "\<not> dbContentionFires emptyStackProfile ?quiet
      \<and> \<not> costExplosionFires emptyStackProfile \<and> \<not> externalDepsFires ?quiet
      \<and> \<not> backgroundBlockingFires ?quiet \<and> \<not> concurrencyFires ?quiet"
    by code_simp
  from none C5_risks_ranked_and_capped [of emptyStackProfile ?quiet]
  have "detectRisks emptyStackProfile ?quiet = []"
    by blast
  with cap five three none show ?thesis
    by blast
qed

text \<open>
  C6. The status is a function of the score with thresholds 80 and 50: at least 80 is
  safe, from 50 to 79 is watch, below 50 is fix (49 fix, 50 watch, 79 watch, 80 safe).
  It is monotonic: a higher score never leaves safe and a lower score never leaves fix.
  Every verdict is produced, carries the score of \<open>calculateLaunchConfidence\<close>, and its
  status is the status of that score.
\<close>

theorem C6_status_from_score:
  "(sc \<ge> 80 \<longrightarrow> statusOf sc = Safe)
   \<and> (50 \<le> sc \<and> sc < 80 \<longrightarrow> statusOf sc = Watch)
   \<and> (sc < 50 \<longrightarrow> statusOf sc = Fix)
   \<and> statusOf 49 = Fix \<and> statusOf 50 = Watch \<and> statusOf 79 = Watch \<and> statusOf 80 = Safe
   \<and> (\<forall>lo hi. lo \<le> hi \<longrightarrow>
         (statusOf lo = Safe \<longrightarrow> statusOf hi = Safe)
         \<and> (statusOf hi = Fix \<longrightarrow> statusOf lo = Fix))
   \<and> (\<exists>v. generateLaunchVerdict a = Some v
          \<and> confidence_score v
              = score (calculateLaunchConfidence (stack_detection a) (behavior_profile a))
          \<and> status v = statusOf (confidence_score v))"
proof -
  have thresholds: "(sc \<ge> 80 \<longrightarrow> statusOf sc = Safe)
      \<and> (50 \<le> sc \<and> sc < 80 \<longrightarrow> statusOf sc = Watch) \<and> (sc < 50 \<longrightarrow> statusOf sc = Fix)"
    by (simp add: statusOf_def)
  have bounds: "statusOf 49 = Fix \<and> statusOf 50 = Watch \<and> statusOf 79 = Watch
      \<and> statusOf 80 = Safe"
    by (simp add: statusOf_def)
  have mono: "\<forall>lo hi. lo \<le> hi \<longrightarrow>
         (statusOf lo = Safe \<longrightarrow> statusOf hi = Safe)
         \<and> (statusOf hi = Fix \<longrightarrow> statusOf lo = Fix)"
    by (auto simp: statusOf_def split: if_splits)
  from thresholds bounds mono generateLaunchVerdict_returns [of a] show ?thesis
    by blast
qed

theorem C6_status_witness:
  "(50::int) \<le> 65 \<and> (65::int) < 80 \<and> statusOf 65 = Watch
   \<and> (30::int) < 50 \<and> statusOf 30 = Fix
   \<and> (100::int) \<ge> 80 \<and> statusOf 100 = Safe
   \<and> (\<exists>v. generateLaunchVerdict
          \<lparr>analysis_ident = ''analysis-1'', stack_detection = emptyStackProfile,
           behavior_profile =
             \<lparr>is_stateful = True, write_heavy = True, has_background_jobs = False,
              has_file_uploads = False, estimated_concurrency_risk = High,
              external_dependency_count = 7\<rparr>\<rparr> = Some v
        \<and> confidence_score v = 30 \<and> status v = Fix)"
proof -
  let ?a = "\<lparr>analysis_ident = ''analysis-1'', stack_detection = emptyStackProfile,
           behavior_profile =
             \<lparr>is_stateful = True, write_heavy = True, has_background_jobs = False,
              has_file_uploads = False, estimated_concurrency_risk = High,
              external_dependency_count = 7\<rparr>\<rparr>"
  have watch: "statusOf 65 = Watch"
    using C6_status_from_score [of 65 ?a] by simp
  have low: "statusOf 30 = Fix"
    using C6_status_from_score [of 30 ?a] by simp
  have safe: "statusOf 100 = Safe"
    using C6_status_from_score [of 100 ?a] by simp
  have sc: "score (calculateLaunchConfidence (stack_detection ?a) (behavior_profile ?a)) = 30"
    by code_simp
  from C6_status_from_score [of 30 ?a] sc low
  have "\<exists>v. generateLaunchVerdict ?a = Some v \<and> confidence_score v = 30 \<and> status v = Fix"
    by auto
  with watch low safe show ?thesis
    by simp
qed

text \<open>
  C10. For a stack detected from a manifest without a Python dependency list the runtime
  is \<open>Node.js\<close>, whose lower-case form is neither \<open>node\<close> nor \<open>python\<close>: the Replit
  candidate scores 50, or 80 for a stateless low-risk profile, never 20 more; the bullet
  "Great support for Node.js and Python" is not among its bullets, nor among those of
  the recommendation returned for any current platform.
\<close>

theorem C10_replit_runtime_bonus_never_given:
  assumes "packageJson ac = Some pj" and "requirements ac = None"
  shows "runtime (detectStack ac) = Some ''Node.js''
    \<and> candidate_score (replitCandidate (detectStack ac) bp)
        = (if \<not> is_stateful bp \<and> estimated_concurrency_risk bp = Low then 50 + 30 else 50)
    \<and> ''Great support for Node.js and Python''
        \<notin> set (whyBullets (replitCandidate (detectStack ac) bp))
    \<and> (\<exists>r. recommendPlatform (detectStack ac) bp cp = Some r
           \<and> ''Great support for Node.js and Python'' \<notin> set (why_bullets r))"
proof -
  let ?sp = "detectStack ac"
  let ?b = "''Great support for Node.js and Python''"
  have rt: "runtime ?sp = Some ''Node.js''"
    using assms by (simp add: detectStack_def Let_def nodeDetection_runtime)
  have lower: "toLowerCase ''Node.js'' = ''node.js''"
    by code_simp
  have sc: "candidate_score (replitCandidate ?sp bp)
        = (if \<not> is_stateful bp \<and> estimated_concurrency_risk bp = Low then 50 + 30 else 50)"
    by (simp add: replitCandidate_def Let_def rt lower credit_def)
  have replit: "?b \<notin> set (whyBullets (replitCandidate ?sp bp))"
    by (simp add: replitCandidate_def Let_def rt lower credit_def)
  have vercel: "?b \<notin> set (whyBullets (vercelCandidate ?sp bp))"
    by (simp add: vercelCandidate_def Let_def credit_def)
  have railway: "?b \<notin> set (whyBullets (railwayCandidate ?sp bp))"
    by (simp add: railwayCandidate_def Let_def credit_def)
  have fly: "?b \<notin> set (whyBullets (flyCandidate ?sp bp))"
    by (simp add: flyCandidate_def Let_def credit_def)
  have all: "\<And>p. p \<in> set (rankedPlatforms ?sp bp) \<Longrightarrow> ?b \<notin> set (whyBullets p)"
    using replit vercel railway fly by (auto simp: rankedPlatforms_set)
  have stay: "\<And>p. p \<in> set (rankedPlatforms ?sp bp) \<Longrightarrow> ?b \<notin> set (why_bullets (stayRecommendation p))"
    using all by (simp add: stayRecommendation_def)
  have best: "\<And>p. p \<in> set (rankedPlatforms ?sp bp) \<Longrightarrow> ?b \<notin> set (why_bullets (bestRecommendation p cp))"
    using all by (simp add: bestRecommendation_def)
  have ne: "rankedPlatforms ?sp bp \<noteq> []"
    using rankedPlatforms_set [of ?sp bp] by auto
  have "\<exists>r. recommendPlatform ?sp bp cp = Some r \<and> ?b \<notin> set (why_bullets r)"
  proof (cases "rankedPlatforms ?sp bp")
    case Nil
    with ne show ?thesis by simp
  next
    case (Cons p ps)
    then have hd: "p \<in> set (rankedPlatforms ?sp bp)" by simp
    show ?thesis
      using Cons best [OF hd] stay
      by (auto simp: recommendPlatform_def Let_def find_Some_iff
          split: option.splits dest!: nth_mem)
  qed
  with rt sc replit show ?thesis by blast
qed

theorem C10_replit_witness:
  "packageJson \<lparr>files = [],
       packageJson = Some \<lparr>dependencies = Some [(''express'', ''4.18.0'')], devDependencies = None\<rparr>,
       requirements = None\<rparr>
     = Some \<lparr>dependencies = Some [(''express'', ''4.18.0'')], devDependencies = None\<rparr>
   \<and> requirements \<lparr>files = [],
       packageJson = Some \<lparr>dependencies = Some [(''express'', ''4.18.0'')], devDependencies = None\<rparr>,
       requirements = None\<rparr> = None
   \<and> runtime (detectStack \<lparr>files = [],
       packageJson = Some \<lparr>dependencies = Some [(''express'', ''4.18.0'')], devDependencies = None\<rparr>,
       requirements = None\<rparr>) = Some ''Node.js''
   \<and> candidate_score (replitCandidate (detectStack \<lparr>files = [],
       packageJson = Some \<lparr>dependencies = Some [(''express'', ''4.18.0'')], devDependencies = None\<rparr>,
       requirements = None\<rparr>)
       \<lparr>is_stateful = False, write_heavy = False, has_background_jobs = False,
        has_file_uploads = False, estimated_concurrency_risk = Low,
        external_dependency_count = 1\<rparr>) = 80
   \<and> (\<exists>r. recommendPlatform (detectStack \<lparr>files = [],
       packageJson = Some \<lparr>dependencies = Some [(''express'', ''4.18.0'')], devDependencies = None\<rparr>,
       requirements = None\<rparr>)
       \<lparr>is_stateful = False, write_heavy = False, has_background_jobs = False,
        has_file_uploads = False, estimated_concurrency_risk = Low,
        external_dependency_count = 1\<rparr> (Some ''Replit'') = Some r
        \<and> platform_id r = ''replit''
        \<and> why_bullets r = [''Simple setup for low-to-moderate traffic''])"
proof -
  let ?pj = "\<lparr>dependencies = Some [(''express'', ''4.18.0'')], devDependencies = None\<rparr>"
  let ?ac = "\<lparr>files = [], packageJson = Some ?pj, requirements = None\<rparr>"
  let ?bp = "\<lparr>is_stateful = False, write_heavy = False, has_background_jobs = False,
        has_file_uploads = False, estimated_concurrency_risk = Low,
        external_dependency_count = 1\<rparr>"
  have manifest: "packageJson ?ac = Some ?pj"
    by simp
  have nolist: "requirements ?ac = None"
    by simp
  note claim = C10_replit_runtime_bonus_never_given [OF manifest nolist, of ?bp "Some ''Replit''"]
  from claim have rt: "runtime (detectStack ?ac) = Some ''Node.js''"
    by blast
  from claim have sc: "candidate_score (replitCandidate (detectStack ?ac) ?bp) = 80"
    by simp
  have "map_option (\<lambda>r. (platform_id r, why_bullets r))
      (recommendPlatform (detectStack ?ac) ?bp (Some ''Replit''))
      = Some (''replit'', [''Simple setup for low-to-moderate traffic''])"
    by code_simp
  then have rec: "\<exists>r. recommendPlatform (detectStack ?ac) ?bp (Some ''Replit'') = Some r
        \<and> platform_id r = ''replit''
        \<and> why_bullets r = [''Simple setup for low-to-moderate traffic'']"
    by auto
  from manifest nolist rt sc rec show ?thesis
    by blast
qed

section \<open>Alert cooldown\<close>

text \<open>
  C7. With a previous profile supplied, no returned alert has a category for which the
  table holds a row of the same user and analysis created within the trailing 7 days,
  whatever the trigger conditions. When the database answers and both identifiers are
  UUIDs, the call returns, and a category whose trigger condition holds and whose rows
  for this user and analysis are all 7 days old or older is among the returned alerts.
  Otherwise the call fails with the error of the query and returns no alert.
\<close>

theorem C7_cooldown_per_category:
  "(\<forall>alerts. evaluateAlerts db clock aid uid newP (Some prev) = Inr alerts \<longrightarrow>
      (\<forall>r\<in>set (alerts_table db).
          parseUuid (user_id r) = parseUuid uid
          \<and> parseUuid (alert_analysis_id r) = parseUuid aid
          \<and> created_at r > db_now db - sevenDays
          \<longrightarrow> category r \<notin> category ` set alerts))
   \<and> (reachable db \<and> parseUuid uid \<noteq> None \<and> parseUuid aid \<noteq> None \<longrightarrow>
        (\<exists>alerts. evaluateAlerts db clock aid uid newP (Some prev) = Inr alerts
           \<and> (\<forall>c. triggered c prev newP
                  \<and> (\<forall>r\<in>set (alerts_table db).
                        parseUuid (user_id r) = parseUuid uid
                        \<and> parseUuid (alert_analysis_id r) = parseUuid aid
                        \<and> category r = c
                        \<longrightarrow> created_at r \<le> db_now db - sevenDays)
                  \<longrightarrow> c \<in> category ` set alerts)))
   \<and> (\<not> reachable db \<longrightarrow>
        evaluateAlerts db clock aid uid newP (Some prev) = Inl QueryError)
   \<and> (reachable db \<and> (parseUuid uid = None \<or> parseUuid aid = None) \<longrightarrow>
        evaluateAlerts db clock aid uid newP (Some prev) = Inl InvalidUuid)"
proof (intro conjI allI impI)
  fix alerts
  assume res: "evaluateAlerts db clock aid uid newP (Some prev) = Inr alerts"
  then have ok: "reachable db" "parseUuid uid \<noteq> None" "parseUuid aid \<noteq> None"
    using evaluateAlerts_fails by blast+
  from evaluateAlerts_categories [OF ok, of clock newP prev] res
  have cats: "category ` set alerts =
        {c. triggered c prev newP
            \<and> c \<notin> category ` {r \<in> set (alerts_table db).
                  parseUuid (user_id r) = parseUuid uid
                  \<and> parseUuid (alert_analysis_id r) = parseUuid aid
                  \<and> created_at r > db_now db - sevenDays}}"
    by simp
  show "\<forall>r\<in>set (alerts_table db).
          parseUuid (user_id r) = parseUuid uid
          \<and> parseUuid (alert_analysis_id r) = parseUuid aid
          \<and> created_at r > db_now db - sevenDays
          \<longrightarrow> category r \<notin> category ` set alerts"
    unfolding cats by auto
next
  assume "reachable db \<and> parseUuid uid \<noteq> None \<and> parseUuid aid \<noteq> None"
  then have ok: "reachable db" "parseUuid uid \<noteq> None" "parseUuid aid \<noteq> None"
    by blast+
  from evaluateAlerts_categories [OF ok, of clock newP prev]
  obtain alerts where res: "evaluateAlerts db clock aid uid newP (Some prev) = Inr alerts"
    and cats: "category ` set alerts =
        {c. triggered c prev newP
            \<and> c \<notin> category ` {r \<in> set (alerts_table db).
                  parseUuid (user_id r) = parseUuid uid
                  \<and> parseUuid (alert_analysis_id r) = parseUuid aid
                  \<and> created_at r > db_now db - sevenDays}}"
    by blast
  have "\<forall>c. triggered c prev newP
                  \<and> (\<forall>r\<in>set (alerts_table db).
                        parseUuid (user_id r) = parseUuid uid
                        \<and> parseUuid (alert_analysis_id r) = parseUuid aid
                        \<and> category r = c
                        \<longrightarrow> created_at r \<le> db_now db - sevenDays)
                  \<longrightarrow> c \<in> category ` set alerts"
    unfolding cats by force
  with res show "\<exists>alerts. evaluateAlerts db clock aid uid newP (Some prev) = Inr alerts
           \<and> (\<forall>c. triggered c prev newP
                  \<and> (\<forall>r\<in>set (alerts_table db).
                        parseUuid (user_id r) = parseUuid uid
                        \<and> parseUuid (alert_analysis_id r) = parseUuid aid
                        \<and> category r = c
                        \<longrightarrow> created_at r \<le> db_now db - sevenDays)
                  \<longrightarrow> c \<in> category ` set alerts)"
    by blast
next
  assume "\<not> reachable db"
  then show "evaluateAlerts db clock aid uid newP (Some prev) = Inl QueryError"
    by (simp add: evaluateAlerts_def recentAlertsQuery_def)
next
  assume "reachable db \<and> (parseUuid uid = None \<or> parseUuid aid = None)"
  then show "evaluateAlerts db clock aid uid newP (Some prev) = Inl InvalidUuid"
    by (auto simp: evaluateAlerts_def recentAlertsQuery_def split: option.splits)
qed

theorem C7_cooldown_witness:
  "(\<exists>alerts. evaluateAlerts
        \<lparr>reachable = True,
         alerts_table = [createAlert (7 * 86400000000)
                           ''11111111-1111-1111-1111-111111111111''
                           ''22222222-2222-2222-2222-222222222222'' UsageGrowth
                           HeadsUp ''t'' ''b'' ''c'' ''n''],
         db_now = 10 * 86400000000\<rparr>
        (10 * 86400000000) ''22222222-2222-2222-2222-222222222222''
        ''11111111-1111-1111-1111-111111111111''
        \<lparr>is_stateful = True, write_heavy = False, has_background_jobs = False,
         has_file_uploads = False, estimated_concurrency_risk = High,
         external_dependency_count = 1\<rparr>
        (Some \<lparr>is_stateful = False, write_heavy = False, has_background_jobs = False,
               has_file_uploads = False, estimated_concurrency_risk = Low,
               external_dependency_count = 1\<rparr>) = Inr alerts
      \<and> ArchitectureDrift \<in> category ` set alerts
      \<and> UsageGrowth \<notin> category ` set alerts)
   \<and> (\<exists>alerts. evaluateAlerts
        \<lparr>reachable = True,
         alerts_table = [createAlert (2 * 86400000000)
                           ''11111111-1111-1111-1111-111111111111''
                           ''22222222-2222-2222-2222-222222222222'' UsageGrowth
                           HeadsUp ''t'' ''b'' ''c'' ''n''],
         db_now = 10 * 86400000000\<rparr>
        (10 * 86400000000) ''22222222-2222-2222-2222-222222222222''
        ''11111111-1111-1111-1111-111111111111''
        \<lparr>is_stateful = True, write_heavy = False, has_background_jobs = False,
         has_file_uploads = False, estimated_concurrency_risk = High,
         external_dependency_count = 1\<rparr>
        (Some \<lparr>is_stateful = False, write_heavy = False, has_background_jobs = False,
               has_file_uploads = False, estimated_concurrency_risk = Low,
               external_dependency_count = 1\<rparr>) = Inr alerts
      \<and> UsageGrowth \<in> category ` set alerts)
   \<and> parseUuid ''user-1'' = None
   \<and> evaluateAlerts
        \<lparr>reachable = True, alerts_table = [], db_now = 10 * 86400000000\<rparr>
        (10 * 86400000000) ''22222222-2222-2222-2222-222222222222'' ''user-1''
        \<lparr>is_stateful = True, write_heavy = False, has_background_jobs = False,
         has_file_uploads = False, estimated_concurrency_risk = High,
         external_dependency_count = 1\<rparr>
        (Some \<lparr>is_stateful = False, write_heavy = False, has_background_jobs = False,
               has_file_uploads = False, estimated_concurrency_risk = Low,
               external_dependency_count = 1\<rparr>) = Inl InvalidUuid"
proof -
  define uid where "uid = ''11111111-1111-1111-1111-111111111111''"
  define aid where "aid = ''22222222-2222-2222-2222-222222222222''"
  define row3 where "row3 = createAlert (7 * 86400000000) uid aid UsageGrowth
                           HeadsUp ''t'' ''b'' ''c'' ''n''"
  define row8 where "row8 = createAlert (2 * 86400000000) uid aid UsageGrowth
                           HeadsUp ''t'' ''b'' ''c'' ''n''"
  define db3 where "db3 = \<lparr>reachable = True, alerts_table = [row3], db_now = 10 * 86400000000\<rparr>"
  define db8 where "db8 = \<lparr>reachable = True, alerts_table = [row8], db_now = 10 * 86400000000\<rparr>"
  define db0 where "db0 = \<lparr>reachable = True, alerts_table = [], db_now = 10 * 86400000000\<rparr>"
  define new where "new = \<lparr>is_stateful = True, write_heavy = False, has_background_jobs = False,
         has_file_uploads = False, estimated_concurrency_risk = High,
         external_dependency_count = 1\<rparr>"
  define prev where "prev = \<lparr>is_stateful = False, write_heavy = False,
         has_background_jobs = False, has_file_uploads = False,
         estimated_concurrency_risk = Low, external_dependency_count = 1\<rparr>"
  have wellformed: "parseUuid uid \<noteq> None" "parseUuid aid \<noteq> None"
    unfolding uid_def aid_def by code_simp+
  have illformed: "parseUuid ''user-1'' = None"
    by code_simp
  have row3: "user_id row3 = uid" "alert_analysis_id row3 = aid"
      "category row3 = UsageGrowth" "created_at row3 = 7 * 86400000000"
    by (simp_all add: row3_def createAlert_def)
  have row8: "user_id row8 = uid" "alert_analysis_id row8 = aid"
      "category row8 = UsageGrowth" "created_at row8 = 2 * 86400000000"
    by (simp_all add: row8_def createAlert_def)
  have db3: "reachable db3" "alerts_table db3 = [row3]" "db_now db3 = 10 * 86400000000"
    by (simp_all add: db3_def)
  have db8: "reachable db8" "alerts_table db8 = [row8]" "db_now db8 = 10 * 86400000000"
    by (simp_all add: db8_def)
  have db0: "reachable db0"
    by (simp add: db0_def)
  have growth: "triggered UsageGrowth prev new"
    by (simp add: prev_def new_def)
  have drift: "triggered ArchitectureDrift prev new"
    by (simp add: prev_def new_def)
  note three = C7_cooldown_per_category [of db3 "10 * 86400000000" aid uid new prev]
  note eight = C7_cooldown_per_category [of db8 "10 * 86400000000" aid uid new prev]
  note bad = C7_cooldown_per_category [of db0 "10 * 86400000000" aid "''user-1''" new prev]
  from three db3(1) wellformed obtain alerts3 where
      res3: "evaluateAlerts db3 (10 * 86400000000) aid uid new (Some prev) = Inr alerts3"
      and fire3: "\<forall>c. triggered c prev new
          \<and> (\<forall>r\<in>set (alerts_table db3).
                parseUuid (user_id r) = parseUuid uid
                \<and> parseUuid (alert_analysis_id r) = parseUuid aid \<and> category r = c
                \<longrightarrow> created_at r \<le> db_now db3 - sevenDays)
          \<longrightarrow> c \<in> category ` set alerts3"
    by blast
  from fire3 drift have in3: "ArchitectureDrift \<in> category ` set alerts3"
    by (simp add: db3 row3)
  from three res3 have "\<forall>r\<in>set (alerts_table db3).
          parseUuid (user_id r) = parseUuid uid
          \<and> parseUuid (alert_analysis_id r) = parseUuid aid
          \<and> created_at r > db_now db3 - sevenDays
          \<longrightarrow> category r \<notin> category ` set alerts3"
    by blast
  then have out3: "UsageGrowth \<notin> category ` set alerts3"
    by (simp add: db3 row3 sevenDays_def)
  from eight db8(1) wellformed obtain alerts8 where
      res8: "evaluateAlerts db8 (10 * 86400000000) aid uid new (Some prev) = Inr alerts8"
      and fire8: "\<forall>c. triggered c prev new
          \<and> (\<forall>r\<in>set (alerts_table db8).
                parseUuid (user_id r) = parseUuid uid
                \<and> parseUuid (alert_analysis_id r) = parseUuid aid \<and> category r = c
                \<longrightarrow> created_at r \<le> db_now db8 - sevenDays)
          \<longrightarrow> c \<in> category ` set alerts8"
    by blast
  from fire8 growth have in8: "UsageGrowth \<in> category ` set alerts8"
    by (simp add: db8 row8 sevenDays_def)
  from bad db0 illformed
  have res0: "evaluateAlerts db0 (10 * 86400000000) aid ''user-1'' new (Some prev)
      = Inl InvalidUuid"
    by blast
  from res3 in3 out3 res8 in8 illformed res0 show ?thesis
    unfolding db3_def db8_def db0_def row3_def row8_def new_def prev_def uid_def aid_def
    by blast
qed

end
